theory Spec2Isabelle
  imports Main
begin

section \<open>Python strings and paths\<close>

text \<open>
  The script is Python 3 on a POSIX system. A Python \<open>str\<close> is modelled as a
  \<^typ>\<open>string\<close> whose characters are the code points below 256; text with other code
  points is outside the model. \<open>int()\<close> has CPython's default limit of 4300 digits.
\<close>

type_synonym path = string

definition py_isspace :: "char \<Rightarrow> bool" where
  "py_isspace c =
     (let n = (of_char c :: nat)
      in (9 \<le> n \<and> n \<le> 13) \<or> (28 \<le> n \<and> n \<le> 32) \<or> n = 133 \<or> n = 160)"

definition py_strip :: "string \<Rightarrow> string" where
  "py_strip s = rev (dropWhile py_isspace (rev (dropWhile py_isspace s)))"

definition ascii_digit :: "char \<Rightarrow> bool" where
  "ascii_digit c = (let n = (of_char c :: nat) in 48 \<le> n \<and> n \<le> 57)"

text \<open>\<open>str.isdigit\<close>: besides 0-9, the superscripts 2, 3 and 1 (U+00B2, U+00B3, U+00B9)
  count as digits; the empty string does not.\<close>

definition py_isdigit_char :: "char \<Rightarrow> bool" where
  "py_isdigit_char c =
     (let n = (of_char c :: nat) in ascii_digit c \<or> n = 178 \<or> n = 179 \<or> n = 185)"

definition py_isdigit :: "string \<Rightarrow> bool" where
  "py_isdigit s = (s \<noteq> [] \<and> list_all py_isdigit_char s)"

definition digit_val :: "char \<Rightarrow> nat" where
  "digit_val c = of_char c - 48"

definition decimal_value :: "string \<Rightarrow> nat" where
  "decimal_value s = foldl (\<lambda>n c. 10 * n + digit_val c) 0 s"

fun str_of_nat :: "nat \<Rightarrow> string" where
  "str_of_nat n =
     (if n < 10 then [char_of (48 + n)]
      else str_of_nat (n div 10) @ [char_of (48 + n mod 10)])"

definition py_lower_char :: "char \<Rightarrow> char" where
  "py_lower_char c =
     (let n = (of_char c :: nat)
      in if (65 \<le> n \<and> n \<le> 90) \<or> (192 \<le> n \<and> n \<le> 222 \<and> n \<noteq> 215)
         then char_of (n + 32) else c)"

definition py_lower :: "string \<Rightarrow> string" where
  "py_lower s = map py_lower_char s"

definition endswith :: "string \<Rightarrow> string \<Rightarrow> bool" where
  "endswith s suf = (length suf \<le> length s \<and> drop (length s - length suf) s = suf)"

definition startswith :: "string \<Rightarrow> string \<Rightarrow> bool" where
  "startswith s pre = (take (length pre) s = pre)"

text \<open>\<open>os.path.join\<close> of two components (posixpath).\<close>

definition path_join :: "path \<Rightarrow> string \<Rightarrow> path" where
  "path_join a b =
     (if startswith b ''/'' then b
      else if a = [] \<or> endswith a ''/'' then a @ b
      else a @ ''/'' @ b)"

section \<open>The world the script runs in\<close>

datatype exn =
    EOFError
  | PermissionError
  | FileNotFoundError
  | FileExistsError
  | IsADirectoryError
  | NotADirectoryError
  | UnicodeDecodeError
  | ValueError
  | IndexError
  | AttributeError
  | CalledProcessError int "string list"
  | ExternalError string

text \<open>
  The state of the file system, as the queries of the script see it: \<open>dirs\<close> says
  which paths are directories, \<open>files\<close> holds the bytes of the regular files,
  \<open>listing\<close> is what \<open>os.listdir\<close> answers for a directory (an error when it
  raises). A trailing slash on a path is ignored when the path is resolved to a
  directory. The calls that change the state or read a file as text belong to the
  operating system and the library, and are taken as they come (see \<open>env\<close> below).
\<close>

record filesystem =
  dirs :: "path \<Rightarrow> bool"
  files :: "path \<rightharpoonup> string"
  listing :: "path \<Rightarrow> exn + string list"

definition drop_slashes :: "path \<Rightarrow> path" where
  "drop_slashes p =
     (let q = rev (dropWhile (\<lambda>c. c = CHR ''/'') (rev p))
      in if q = [] \<and> p \<noteq> [] then ''/'' else q)"

definition path_isdir :: "filesystem \<Rightarrow> path \<Rightarrow> bool" where
  "path_isdir fs p = dirs fs (drop_slashes p)"

definition path_exists :: "filesystem \<Rightarrow> path \<Rightarrow> bool" where
  "path_exists fs p = (path_isdir fs p \<or> files fs p \<noteq> None)"

record message =
  role :: string
  content :: string

record chat_request =
  model :: string
  messages :: "message list"

datatype event =
    Print string
  | Prompt string
  | Makedirs path
  | Read path
  | Write path string
  | Spawn "string list"
  | LoadModel string
  | Transcribe path
  | Chat chat_request

text \<open>
  An event records a call to the outside: \<open>Write p c\<close> is the attempt to write
  \<open>c\<close> to \<open>p\<close>, made whether or not it then fails.

  The external tools are opaque: the transcoding process (its exit status and what it
  did to the files, or the error of starting it), the speech-recognition model, and the
  chat service (the contents of the choices of the completion, \<open>None\<close> for a choice
  without text).

  So are the three calls to the file system that do more than a lookup:
  \<open>makedirs\<close> is \<open>os.makedirs(p, exist_ok=True)\<close> (the error it raised, if any, and
  the file system it left), \<open>read_text\<close> is \<open>open(p, "r", encoding="utf-8").read()\<close>
  (the string returned, or the error), \<open>write_text\<close> is
  \<open>open(p, "w", encoding="utf-8").write(c)\<close> (the error, if any, and the file system
  left). Nothing is assumed about what they answer.
\<close>

record env =
  run_process :: "string list \<Rightarrow> filesystem \<Rightarrow> exn + (int \<times> filesystem)"
  load_model :: "string \<Rightarrow> exn option"
  model_transcribe :: "string \<Rightarrow> path \<Rightarrow> filesystem \<Rightarrow> exn + string"
  chat_create :: "chat_request \<Rightarrow> exn + string option list"
  makedirs :: "path \<Rightarrow> filesystem \<Rightarrow> exn option \<times> filesystem"
  read_text :: "path \<Rightarrow> filesystem \<Rightarrow> exn + string"
  write_text :: "path \<Rightarrow> string \<Rightarrow> filesystem \<Rightarrow> exn option \<times> filesystem"

record world =
  stdin :: "string list"
  cwd :: path
  fs :: filesystem
  trace :: "event list"

text \<open>A computation changes the world and returns a value or raises; what it did
  before raising stays done.\<close>

type_synonym 'a prog = "world \<Rightarrow> (exn + 'a) \<times> world"

definition ret :: "'a \<Rightarrow> 'a prog" where
  "ret x w = (Inr x, w)"

definition raise :: "exn \<Rightarrow> 'a prog" where
  "raise e w = (Inl e, w)"

definition and_then :: "'a prog \<Rightarrow> ('a \<Rightarrow> 'b prog) \<Rightarrow> 'b prog" where
  "and_then m f w = (case m w of (Inl e, w') \<Rightarrow> (Inl e, w') | (Inr x, w') \<Rightarrow> f x w')"

definition emit :: "event \<Rightarrow> unit prog" where
  "emit e w = (Inr (), w\<lparr>trace := trace w @ [e]\<rparr>)"

definition print :: "string \<Rightarrow> unit prog" where
  "print s = emit (Print s)"

text \<open>\<open>input(prompt)\<close>: writes the prompt, reads one line, raises at end of input.\<close>

definition input :: "string \<Rightarrow> string prog" where
  "input p w =
     (case stdin w of
        [] \<Rightarrow> (Inl EOFError, w\<lparr>trace := trace w @ [Prompt p]\<rparr>)
      | l # ls \<Rightarrow> (Inr l, w\<lparr>stdin := ls, trace := trace w @ [Prompt p]\<rparr>))"

text \<open>\<open>os.makedirs(p, exist_ok=True)\<close>.\<close>

definition os_makedirs :: "env \<Rightarrow> path \<Rightarrow> unit prog" where
  "os_makedirs ev p w =
     (case makedirs ev p (fs w) of
        (None, fs') \<Rightarrow> (Inr (), w\<lparr>fs := fs', trace := trace w @ [Makedirs p]\<rparr>)
      | (Some e, fs') \<Rightarrow> (Inl e, w\<lparr>fs := fs', trace := trace w @ [Makedirs p]\<rparr>))"

text \<open>\<open>with open(p, "r", encoding="utf-8") as f: f.read()\<close>.\<close>

definition read_file :: "env \<Rightarrow> path \<Rightarrow> string prog" where
  "read_file ev p w = (read_text ev p (fs w), w\<lparr>trace := trace w @ [Read p]\<rparr>)"

text \<open>\<open>with open(p, "w", encoding="utf-8") as f: f.write(c)\<close>.\<close>

definition write_file :: "env \<Rightarrow> path \<Rightarrow> string \<Rightarrow> unit prog" where
  "write_file ev p c w =
     (case write_text ev p c (fs w) of
        (None, fs') \<Rightarrow> (Inr (), w\<lparr>fs := fs', trace := trace w @ [Write p c]\<rparr>)
      | (Some e, fs') \<Rightarrow> (Inl e, w\<lparr>fs := fs', trace := trace w @ [Write p c]\<rparr>))"

section \<open>The script\<close>

definition ESC :: string where "ESC = [CHR 0x1B]"
definition BLUE :: string where "BLUE = ESC @ ''[94m''"
definition CYAN :: string where "CYAN = ESC @ ''[96m''"
definition GREEN :: string where "GREEN = ESC @ ''[92m''"
definition YELLOW :: string where "YELLOW = ESC @ ''[93m''"
definition RED :: string where "RED = ESC @ ''[91m''"
definition BOLD :: string where "BOLD = ESC @ ''[1m''"
definition RESET :: string where "RESET = ESC @ ''[0m''"

definition header :: string where
  "header =
     ''\<newline>'' @ BOLD @ CYAN
     @ ''===================================================================\<newline>''
     @ ''          ETEPS Reading Club Learning Assists Production Tool\<newline>''
     @ ''===================================================================''
     @ RESET @ ''\<newline>    ''"

definition print_header :: "unit prog" where
  "print_header = print header"

subsection \<open>choose_video_file\<close>

definition video_extensions :: "string list" where
  "video_extensions = [''.mp4'', ''.mov'', ''.avi'']"

definition is_video :: "string \<Rightarrow> bool" where
  "is_video f = list_ex (endswith (py_lower f)) video_extensions"

text \<open>\<open>os.listdir\<close> under \<open>try\<close>/\<open>except PermissionError\<close>: the result, with the
  exception still in it.\<close>

definition os_listdir :: "path \<Rightarrow> string list prog" where
  "os_listdir d w = (listing (fs w) d, w)"

text \<open>The enumerated list, printed from index \<open>idx\<close> on.\<close>

fun print_files :: "nat \<Rightarrow> string list \<Rightarrow> unit prog" where
  "print_files idx [] = ret ()"
| "print_files idx (file # rest) =
     and_then (print (''  '' @ GREEN @ str_of_nat idx @ ''.'' @ RESET @ '' '' @ file))
       (\<lambda>_. print_files (Suc idx) rest)"

text \<open>\<open>int(s)\<close> for a string \<open>s\<close> that passed \<open>isdigit\<close>: the decimal value when all
  characters are 0-9 and there are at most 4300 of them (leading zeros count),
  \<open>ValueError\<close> when there are more or when a superscript digit is among them.\<close>

definition int_max_str_digits :: nat where
  "int_max_str_digits = 4300"

definition py_int :: "string \<Rightarrow> int prog" where
  "py_int s =
     (if s \<noteq> [] \<and> list_all ascii_digit s \<and> length s \<le> int_max_str_digits
      then ret (int (decimal_value s))
      else raise ValueError)"

text \<open>The second half of \<open>choose_video_file\<close>: the list is printed, the selection is
  read and resolved.\<close>

definition select_video :: "path \<Rightarrow> string list \<Rightarrow> path option prog" where
  "select_video directory video_files =
     and_then (print (''\<newline>'' @ BOLD @ ''Video files in '' @ directory @ '':'' @ RESET)) (\<lambda>_.
     and_then (print_files 1 video_files) (\<lambda>_.
     and_then (input ''\<newline>Select a video file by number or type the file name: '') (\<lambda>line.
       let choice = py_strip line
       in if py_isdigit choice then
            and_then (py_int choice) (\<lambda>index.
              if 1 \<le> index \<and> index \<le> int (length video_files)
              then ret (Some (path_join directory (video_files ! nat (index - 1))))
              else and_then (print (RED @ ''Invalid selection number.'' @ RESET))
                     (\<lambda>_. ret None))
          else
            (let candidate = path_join directory choice
             in (\<lambda>w. if path_exists (fs w) candidate then ret (Some candidate) w
                      else and_then (print (RED @ ''File not found.'' @ RESET))
                             (\<lambda>_. ret None) w)))))"

definition choose_video_file :: "path option prog" where
  "choose_video_file =
     and_then (input (BOLD @ ''Enter the directory containing your video files (press Enter for current directory): '' @ RESET)) (\<lambda>line w.
       let directory = (if py_strip line = [] then cwd w else py_strip line)
       in if \<not> path_isdir (fs w) directory then
            and_then (print (RED @ ''Directory does not exist.'' @ RESET)) (\<lambda>_. ret None) w
          else
            (case os_listdir directory w of
               (Inl PermissionError, w1) \<Rightarrow>
                 and_then (print (RED @ ''Permission error: Cannot access '' @ directory
                                  @ ''. Please check your system permissions.'' @ RESET))
                   (\<lambda>_. ret None) w1
             | (Inl e, w1) \<Rightarrow> raise e w1
             | (Inr names, w1) \<Rightarrow>
                 (let video_files = filter is_video names
                  in if video_files = [] then
                       and_then (print (YELLOW @ ''No video files found in that directory.'' @ RESET))
                         (\<lambda>_. ret None) w1
                     else select_video directory video_files w1)))"

subsection \<open>extract_audio\<close>

definition ffmpeg_command :: "path \<Rightarrow> path \<Rightarrow> string list" where
  "ffmpeg_command video_file audio_file =
     [''ffmpeg'', ''-y'', ''-i'', video_file, ''-vn'', ''-acodec'', ''pcm_s16le'',
      ''-ar'', ''44100'', ''-ac'', ''2'', audio_file]"

text \<open>\<open>subprocess.run(command, check=True)\<close>: one process; a non-zero exit status
  raises \<open>CalledProcessError\<close>.\<close>

definition subprocess_run_check :: "env \<Rightarrow> string list \<Rightarrow> unit prog" where
  "subprocess_run_check ev command w =
     (let w1 = w\<lparr>trace := trace w @ [Spawn command]\<rparr>
      in case run_process ev command (fs w) of
           Inl e \<Rightarrow> (Inl e, w1)
         | Inr (status, fs') \<Rightarrow>
             if status \<noteq> 0 then (Inl (CalledProcessError status command), w1\<lparr>fs := fs'\<rparr>)
             else (Inr (), w1\<lparr>fs := fs'\<rparr>))"

definition extract_audio :: "env \<Rightarrow> path \<Rightarrow> path \<Rightarrow> unit prog" where
  "extract_audio ev video_file audio_file =
     and_then (subprocess_run_check ev (ffmpeg_command video_file audio_file)) (\<lambda>_.
       print (GREEN @ ''Audio extracted to '' @ audio_file @ RESET))"

subsection \<open>transcribe_audio\<close>

definition whisper_load_model :: "env \<Rightarrow> string \<Rightarrow> string prog" where
  "whisper_load_model ev name w =
     (case load_model ev name of
        Some e \<Rightarrow> (Inl e, w\<lparr>trace := trace w @ [LoadModel name]\<rparr>)
      | None \<Rightarrow> (Inr name, w\<lparr>trace := trace w @ [LoadModel name]\<rparr>))"

definition whisper_transcribe :: "env \<Rightarrow> string \<Rightarrow> path \<Rightarrow> string prog" where
  "whisper_transcribe ev m audio_file w =
     (model_transcribe ev m audio_file (fs w), w\<lparr>trace := trace w @ [Transcribe audio_file]\<rparr>)"

definition transcribe_audio :: "env \<Rightarrow> path \<Rightarrow> path \<Rightarrow> string prog" where
  "transcribe_audio ev audio_file transcription_file =
     and_then (print (BLUE @ ''Loading Whisper model...'' @ RESET)) (\<lambda>_.
     and_then (whisper_load_model ev ''base'') (\<lambda>m.
     and_then (print (BLUE @ ''Transcribing audio...'' @ RESET)) (\<lambda>_.
     and_then (whisper_transcribe ev m audio_file) (\<lambda>transcription.
     and_then (print (GREEN @ ''Transcription complete.'' @ RESET)) (\<lambda>_.
     and_then (write_file ev transcription_file transcription) (\<lambda>_.
     and_then (print (GREEN @ ''Transcription saved to '' @ transcription_file @ RESET)) (\<lambda>_.
       ret transcription)))))))"

subsection \<open>generate_summary and generate_flashcards\<close>

text \<open>\<open>client.chat.completions.create(...)\<close> followed by
  \<open>completion.choices[0].message.content.strip()\<close>.\<close>

definition chat_completion :: "env \<Rightarrow> chat_request \<Rightarrow> string option list prog" where
  "chat_completion ev req w = (chat_create ev req, w\<lparr>trace := trace w @ [Chat req]\<rparr>)"

definition first_choice_text :: "string option list \<Rightarrow> string prog" where
  "first_choice_text choices =
     (case choices of
        [] \<Rightarrow> raise IndexError
      | None # _ \<Rightarrow> raise AttributeError
      | Some c # _ \<Rightarrow> ret (py_strip c))"

definition chat_messages :: "string \<Rightarrow> message list" where
  "chat_messages prompt =
     [\<lparr>role = ''developer'', content = ''You are a helpful assistant.''\<rparr>,
      \<lparr>role = ''user'', content = prompt\<rparr>]"

definition summary_prompt :: "string \<Rightarrow> string" where
  "summary_prompt transcription =
     ''Please generate a concise and informative summary for the following reading club transcription:\<newline>\<newline>''
     @ transcription @ ''\<newline>\<newline>Summary:''"

definition summary_request :: "string \<Rightarrow> chat_request" where
  "summary_request transcription =
     \<lparr>model = ''gpt-4o'', messages = chat_messages (summary_prompt transcription)\<rparr>"

definition generate_summary :: "env \<Rightarrow> string \<Rightarrow> string prog" where
  "generate_summary ev transcription =
     and_then (print (BLUE @ ''Generating summary with OpenAI API...'' @ RESET)) (\<lambda>_.
     and_then (chat_completion ev (summary_request transcription)) (\<lambda>choices.
     and_then (first_choice_text choices) (\<lambda>summary.
     and_then (print (GREEN @ ''Summary generated.'' @ RESET)) (\<lambda>_.
       ret summary))))"

definition flashcards_prompt :: "string \<Rightarrow> string \<Rightarrow> string" where
  "flashcards_prompt summary transcription =
     ''Using the following summary and transcription from a reading club session, create a set of flashcards. ''
     @ ''Format the output as a CSV file with two columns: 'Front' and 'Back'. Only output the CSV content without any additional text.\<newline>\<newline>''
     @ ''Summary:\<newline>'' @ summary @ ''\<newline>\<newline>''
     @ ''Transcription:\<newline>'' @ transcription @ ''\<newline>\<newline>''
     @ ''CSV:''"

definition flashcards_request :: "string \<Rightarrow> string \<Rightarrow> chat_request" where
  "flashcards_request summary transcription =
     \<lparr>model = ''gpt-4o'', messages = chat_messages (flashcards_prompt summary transcription)\<rparr>"

definition generate_flashcards :: "env \<Rightarrow> string \<Rightarrow> string \<Rightarrow> string prog" where
  "generate_flashcards ev summary transcription =
     and_then (print (BLUE @ ''Generating flashcards with OpenAI API...'' @ RESET)) (\<lambda>_.
     and_then (chat_completion ev (flashcards_request summary transcription)) (\<lambda>choices.
     and_then (first_choice_text choices) (\<lambda>flashcards_csv.
     and_then (print (GREEN @ ''Flashcards generated.'' @ RESET)) (\<lambda>_.
       ret flashcards_csv))))"

subsection \<open>interactive_menu\<close>

definition menu_lines :: "string list" where
  "menu_lines =
     [''Select the operation you would like to perform:'',
      ''  1. Full workflow (extract audio, transcribe, generate summary, and flashcards)'',
      ''  2. Extract audio only'',
      ''  3. Transcribe audio only (and save transcription)'',
      ''  4. Generate summary (from existing transcription file)'',
      ''  5. Generate flashcards (requires transcription; summary will be generated if missing)'',
      ''  6. Generate summary and flashcards (from existing transcription file)'',
      ''  7. Quit'']"

fun print_all :: "string list \<Rightarrow> unit prog" where
  "print_all [] = ret ()"
| "print_all (l # ls) = and_then (print l) (\<lambda>_. print_all ls)"

definition choice_prompt :: string where
  "choice_prompt = ''\<newline>Enter your choice (1-7): ''"

definition folder_prompt :: string where
  "folder_prompt =
     BOLD @ ''Enter the output folder for generated artefacts (default: outputs): '' @ RESET"

definition missing_transcription :: string where
  "missing_transcription =
     RED @ ''Transcription file not found. Please run transcription first.'' @ RESET"

text \<open>\<open>if not video_file: return\<close> leaves on \<open>None\<close> and on the empty string.\<close>

definition with_video :: "path option \<Rightarrow> (path \<Rightarrow> unit prog) \<Rightarrow> unit prog" where
  "with_video video_file k =
     (case video_file of
        None \<Rightarrow> ret ()
      | Some v \<Rightarrow> if v = [] then ret () else k v)"

text \<open>The branches of the menu, with the four artefact paths already built.\<close>

definition dispatch :: "env \<Rightarrow> string \<Rightarrow> path \<Rightarrow> path \<Rightarrow> path \<Rightarrow> path \<Rightarrow> unit prog" where
  "dispatch ev choice transcription_file summary_file flashcards_file audio_file =
     (if choice = ''1'' then
        and_then choose_video_file (\<lambda>video_file. with_video video_file (\<lambda>v.
        and_then (extract_audio ev v audio_file) (\<lambda>_.
        and_then (transcribe_audio ev audio_file transcription_file) (\<lambda>transcription.
        and_then (generate_summary ev transcription) (\<lambda>summary.
        and_then (write_file ev summary_file summary) (\<lambda>_.
        and_then (generate_flashcards ev summary transcription) (\<lambda>flashcards_csv.
        and_then (write_file ev flashcards_file flashcards_csv) (\<lambda>_.
        print_all
          [GREEN @ ''Full workflow complete!'' @ RESET,
           GREEN @ ''Audio saved to '' @ audio_file @ RESET,
           GREEN @ ''Transcription saved to '' @ transcription_file @ RESET,
           GREEN @ ''Summary saved to '' @ summary_file @ RESET,
           GREEN @ ''Flashcards saved to '' @ flashcards_file @ RESET]))))))))
      else if choice = ''2'' then
        and_then choose_video_file (\<lambda>video_file. with_video video_file (\<lambda>v.
        and_then (extract_audio ev v audio_file) (\<lambda>_.
        print (GREEN @ ''Audio extraction complete. File saved to '' @ audio_file @ RESET))))
      else if choice = ''3'' then
        and_then choose_video_file (\<lambda>video_file. with_video video_file (\<lambda>v.
        and_then (extract_audio ev v audio_file) (\<lambda>_.
        and_then (transcribe_audio ev audio_file transcription_file) (\<lambda>transcription.
        print (GREEN @ ''Transcription complete. File saved to '' @ transcription_file @ RESET)))))
      else if choice = ''4'' then
        (\<lambda>w. if \<not> path_exists (fs w) transcription_file then print missing_transcription w
              else
                (and_then (read_file ev transcription_file) (\<lambda>transcription.
                 and_then (generate_summary ev transcription) (\<lambda>summary.
                 and_then (write_file ev summary_file summary) (\<lambda>_.
                 print (GREEN @ ''Summary generated and saved to '' @ summary_file @ RESET))))) w)
      else if choice = ''5'' then
        (\<lambda>w. if \<not> path_exists (fs w) transcription_file then print missing_transcription w
              else
                (and_then (read_file ev transcription_file) (\<lambda>transcription.
                 and_then
                   (\<lambda>w'. if path_exists (fs w') summary_file then read_file ev summary_file w'
                          else
                            (and_then (generate_summary ev transcription) (\<lambda>summary.
                             and_then (write_file ev summary_file summary) (\<lambda>_. ret summary))) w')
                   (\<lambda>summary.
                 and_then (generate_flashcards ev summary transcription) (\<lambda>flashcards_csv.
                 and_then (write_file ev flashcards_file flashcards_csv) (\<lambda>_.
                 print (GREEN @ ''Flashcards generated and saved to '' @ flashcards_file @ RESET)))))) w)
      else if choice = ''6'' then
        (\<lambda>w. if \<not> path_exists (fs w) transcription_file then print missing_transcription w
              else
                (and_then (read_file ev transcription_file) (\<lambda>transcription.
                 and_then (generate_summary ev transcription) (\<lambda>summary.
                 and_then (write_file ev summary_file summary) (\<lambda>_.
                 and_then (generate_flashcards ev summary transcription) (\<lambda>flashcards_csv.
                 and_then (write_file ev flashcards_file flashcards_csv) (\<lambda>_.
                 print (GREEN @ ''Summary and flashcards generated and saved to '' @ summary_file
                        @ '' and '' @ flashcards_file @ RESET))))))) w)
      else if choice = ''7'' then print (GREEN @ ''Goodbye!'' @ RESET)
      else print (RED @ ''Invalid choice. Exiting.'' @ RESET))"

text \<open>The output folder: the answer stripped, \<open>outputs\<close> when that is empty.\<close>

definition output_folder_of :: "string \<Rightarrow> path" where
  "output_folder_of line = (if py_strip line = [] then ''outputs'' else py_strip line)"

definition interactive_menu :: "env \<Rightarrow> unit prog" where
  "interactive_menu ev =
     and_then print_header (\<lambda>_.
     and_then (print_all menu_lines) (\<lambda>_.
     and_then (input choice_prompt) (\<lambda>choice_line.
     and_then (input folder_prompt) (\<lambda>folder_line.
       let choice = py_strip choice_line;
           output_folder = output_folder_of folder_line
       in and_then (os_makedirs ev output_folder) (\<lambda>_.
            dispatch ev choice
              (path_join output_folder ''transcription.txt'')
              (path_join output_folder ''summary.txt'')
              (path_join output_folder ''flashcards.csv'')
              (path_join output_folder ''audio.wav''))))))"

section \<open>Reading a run\<close>

text \<open>What a trace says was done: the chat requests sent, the processes started, the
  files written, the lines printed, in order.\<close>

fun chats :: "event list \<Rightarrow> chat_request list" where
  "chats [] = []"
| "chats (Chat r # evs) = r # chats evs"
| "chats (_ # evs) = chats evs"

fun spawns :: "event list \<Rightarrow> string list list" where
  "spawns [] = []"
| "spawns (Spawn c # evs) = c # spawns evs"
| "spawns (_ # evs) = spawns evs"

fun writes :: "event list \<Rightarrow> (path \<times> string) list" where
  "writes [] = []"
| "writes (Write p c # evs) = (p, c) # writes evs"
| "writes (_ # evs) = writes evs"

fun prints :: "event list \<Rightarrow> string list" where
  "prints [] = []"
| "prints (Print s # evs) = s # prints evs"
| "prints (_ # evs) = prints evs"

text \<open>The events of the menu up to and including the call that creates the output
  folder.\<close>

definition prologue :: "path \<Rightarrow> event list" where
  "prologue output_folder =
     Print header # map Print menu_lines
     @ [Prompt choice_prompt, Prompt folder_prompt, Makedirs output_folder]"

text \<open>The events of the selector up to and including the prompt for the selection.\<close>

definition listing_events :: "path \<Rightarrow> string list \<Rightarrow> event list" where
  "listing_events directory video_files =
     Prompt (BOLD @ ''Enter the directory containing your video files (press Enter for current directory): '' @ RESET)
     # Print (''\<newline>'' @ BOLD @ ''Video files in '' @ directory @ '':'' @ RESET)
     # map (\<lambda>(idx, file). Print (''  '' @ GREEN @ str_of_nat idx @ ''.'' @ RESET @ '' '' @ file))
         (zip [1 ..< Suc (length video_files)] video_files)
     @ [Prompt ''\<newline>Select a video file by number or type the file name: '']"

text \<open>A computation that only adds events to the trace.\<close>

definition appends_only :: "'a prog \<Rightarrow> bool" where
  "appends_only m = (\<forall>w. \<exists>evs. trace (snd (m w)) = trace w @ evs)"

subsection \<open>Sample runs\<close>

text \<open>
  An implementation of the three calls for the sample runs: files hold bytes; reading
  decodes them as UTF-8 (here for text of code points below 256) and turns every
  carriage return, together with the line feed that follows it if there is one, into a
  line feed; writing encodes; \<open>makedirs\<close> creates the missing directories along the
  path unless a regular file is in the way. The general theorems do not depend on it.
\<close>

fun universal_newlines :: "string \<Rightarrow> string" where
  "universal_newlines [] = []"
| "universal_newlines [c] = (if c = CHR 0x0D then [CHR 0x0A] else [c])"
| "universal_newlines (c # d # cs) =
     (if c = CHR 0x0D
      then (if d = CHR 0x0A then CHR 0x0A # universal_newlines cs
            else CHR 0x0A # universal_newlines (d # cs))
      else c # universal_newlines (d # cs))"

fun utf8_decode :: "string \<Rightarrow> string option" where
  "utf8_decode [] = Some []"
| "utf8_decode [b] = (if (of_char b :: nat) < 128 then Some [b] else None)"
| "utf8_decode (b # b2 # bs) =
     (let n = (of_char b :: nat); m = (of_char b2 :: nat)
      in if n < 128 then map_option ((#) b) (utf8_decode (b2 # bs))
         else if (n = 194 \<or> n = 195) \<and> 128 \<le> m \<and> m < 192
           then map_option ((#) (char_of (if n = 194 then m else m + 64))) (utf8_decode bs)
         else None)"

definition utf8_encode :: "string \<Rightarrow> string" where
  "utf8_encode s =
     concat (map (\<lambda>c. let n = (of_char c :: nat)
                      in if n < 128 then [c]
                         else if n < 192 then [CHR 0xC2, c]
                         else [CHR 0xC3, char_of (n - 64)]) s)"

definition dirname :: "path \<Rightarrow> path" where
  "dirname p =
     (let h = rev (dropWhile (\<lambda>c. c \<noteq> CHR ''/'') (rev p))
      in if list_all (\<lambda>c. c = CHR ''/'') h then h
         else rev (dropWhile (\<lambda>c. c = CHR ''/'') (rev h)))"

definition basename :: "path \<Rightarrow> string" where
  "basename p = rev (takeWhile (\<lambda>c. c \<noteq> CHR ''/'') (rev p))"

definition add_entry :: "path \<Rightarrow> filesystem \<Rightarrow> path \<Rightarrow> exn + string list" where
  "add_entry q fs0 =
     (listing fs0)(dirname q :=
        (case listing fs0 (dirname q) of
           Inr names \<Rightarrow> Inr (names @ [basename q])
         | Inl e \<Rightarrow> Inl e))"

definition dir_prefixes :: "path \<Rightarrow> path list" where
  "dir_prefixes p =
     (let q = drop_slashes p
      in [take i q. i \<leftarrow> [1 ..< length q], q ! i = CHR ''/'' \<and> q ! (i - 1) \<noteq> CHR ''/'']
         @ [q])"

definition mkdir_one :: "path \<Rightarrow> filesystem \<Rightarrow> filesystem" where
  "mkdir_one q fs0 =
     (if dirs fs0 q then fs0
      else fs0\<lparr>dirs := (dirs fs0)(q := True), listing := (add_entry q fs0)(q := Inr [])\<rparr>)"

definition sample_makedirs :: "path \<Rightarrow> filesystem \<Rightarrow> exn option \<times> filesystem" where
  "sample_makedirs p fs0 =
     (if p = [] then (Some FileNotFoundError, fs0)
      else if path_isdir fs0 p then (None, fs0)
      else if list_ex (\<lambda>q. files fs0 q \<noteq> None) (butlast (dir_prefixes p))
        then (Some NotADirectoryError, fs0)
      else if files fs0 (drop_slashes p) \<noteq> None then (Some FileExistsError, fs0)
      else (None, fold mkdir_one (dir_prefixes p) fs0))"

definition sample_read_text :: "path \<Rightarrow> filesystem \<Rightarrow> exn + string" where
  "sample_read_text p fs0 =
     (case files fs0 p of
        Some bytes \<Rightarrow>
          (case utf8_decode bytes of
             Some text \<Rightarrow> Inr (universal_newlines text)
           | None \<Rightarrow> Inl UnicodeDecodeError)
      | None \<Rightarrow> Inl (if path_isdir fs0 p then IsADirectoryError else FileNotFoundError))"

definition sample_write_text :: "path \<Rightarrow> string \<Rightarrow> filesystem \<Rightarrow> exn option \<times> filesystem" where
  "sample_write_text p c fs0 =
     (if path_isdir fs0 p then (Some IsADirectoryError, fs0)
      else if dirname p \<noteq> [] \<and> files fs0 (dirname p) \<noteq> None
        then (Some NotADirectoryError, fs0)
      else if dirname p \<noteq> [] \<and> \<not> path_isdir fs0 (dirname p)
        then (Some FileNotFoundError, fs0)
      else (None,
            fs0\<lparr>files := (files fs0)(p \<mapsto> utf8_encode c),
                listing := (if files fs0 p = None then add_entry p fs0 else listing fs0)\<rparr>))"

definition sample_fs :: filesystem where
  "sample_fs =
     \<lparr>dirs = (\<lambda>p. p = ''videos'' \<or> p = ''out'' \<or> p = ''locked''),
      files = [''out/transcription.txt'' \<mapsto> ''we read chapter one'',
               ''out/summary.txt'' \<mapsto> ''an old summary'',
               ''videos/notes.txt'' \<mapsto> ''notes'',
               ''videos/talk.MP4'' \<mapsto> ''v1'',
               ''videos/b.mov'' \<mapsto> ''v2''],
      listing = (\<lambda>p. if p = ''videos'' then Inr [''notes.txt'', ''talk.MP4'', ''b.mov'']
                      else if p = ''out'' then Inr [''transcription.txt'', ''summary.txt'']
                      else if p = ''locked'' then Inl PermissionError
                      else Inl FileNotFoundError)\<rparr>"

text \<open>The same with carriage returns in the two text files, and with a byte that is
  not UTF-8 in them.\<close>

definition crlf_fs :: filesystem where
  "crlf_fs =
     sample_fs\<lparr>files := (files sample_fs)
       (''out/transcription.txt'' \<mapsto> ''we read'' @ [CHR 0x0D] @ ''chapter one'',
        ''out/summary.txt'' \<mapsto> ''line one'' @ [CHR 0x0D, CHR 0x0A] @ ''line two'')\<rparr>"

definition binary_fs :: filesystem where
  "binary_fs =
     sample_fs\<lparr>files := (files sample_fs)
       (''out/transcription.txt'' \<mapsto> [CHR 0xFF], ''out/summary.txt'' \<mapsto> [CHR 0xFF])\<rparr>"

definition empty_fs :: filesystem where
  "empty_fs = \<lparr>dirs = (\<lambda>p. False), files = Map.empty, listing = (\<lambda>p. Inl FileNotFoundError)\<rparr>"

definition sample_env :: env where
  "sample_env =
     \<lparr>run_process = (\<lambda>command fs0. Inr (1, fs0)),
      load_model = (\<lambda>name. None),
      model_transcribe = (\<lambda>m audio_file fs0. Inr ''we read chapter one''),
      chat_create = (\<lambda>req. Inr [Some '' a reply '', Some ''another'']),
      makedirs = sample_makedirs,
      read_text = sample_read_text,
      write_text = sample_write_text\<rparr>"

definition sample_world :: "string list \<Rightarrow> world" where
  "sample_world lines = \<lparr>stdin = lines, cwd = ''/home/user'', fs = sample_fs, trace = []\<rparr>"

definition empty_world :: "string list \<Rightarrow> world" where
  "empty_world lines = \<lparr>stdin = lines, cwd = ''/home/user'', fs = empty_fs, trace = []\<rparr>"

definition crlf_world :: "string list \<Rightarrow> world" where
  "crlf_world lines = \<lparr>stdin = lines, cwd = ''/home/user'', fs = crlf_fs, trace = []\<rparr>"

definition binary_world :: "string list \<Rightarrow> world" where
  "binary_world lines = \<lparr>stdin = lines, cwd = ''/home/user'', fs = binary_fs, trace = []\<rparr>"

section \<open>Basic facts\<close>

lemma and_then_ret [simp]: "and_then (ret x) f w = f x w"
  by (simp add: and_then_def ret_def)

lemma and_then_raise [simp]: "and_then (raise e) f w = (Inl e, w)"
  by (simp add: and_then_def raise_def)

lemma and_then_print [simp]:
  "and_then (print s) f w = f () (w\<lparr>trace := trace w @ [Print s]\<rparr>)"
  by (simp add: and_then_def print_def emit_def)

lemma print_apply [simp]: "print s w = (Inr (), w\<lparr>trace := trace w @ [Print s]\<rparr>)"
  by (simp add: print_def emit_def)

lemma chats_append [simp]: "chats (xs @ ys) = chats xs @ chats ys"
  by (induction xs rule: chats.induct) simp_all

lemma spawns_append [simp]: "spawns (xs @ ys) = spawns xs @ spawns ys"
  by (induction xs rule: spawns.induct) simp_all

lemma writes_append [simp]: "writes (xs @ ys) = writes xs @ writes ys"
  by (induction xs rule: writes.induct) simp_all

lemma prints_append [simp]: "prints (xs @ ys) = prints xs @ prints ys"
  by (induction xs rule: prints.induct) simp_all

section \<open>The audio extractor\<close>

text \<open>
  Claim C9. Every call of \<open>extract_audio\<close> starts the transcoding process exactly once,
  with the arguments \<open>-y\<close> (overwrite the destination), \<open>-vn\<close> (no video),
  \<open>-acodec pcm_s16le\<close> (16-bit little-endian PCM), \<open>-ar 44100\<close> and \<open>-ac 2\<close>;
  and when the process exits with a non-zero status the call raises
  \<open>CalledProcessError\<close> at once, having started no second process and printed nothing.
\<close>

theorem extract_audio_command_and_failure:
  "spawns (trace (snd (extract_audio ev video_file audio_file w)))
     = spawns (trace w)
       @ [[''ffmpeg'', ''-y'', ''-i'', video_file, ''-vn'', ''-acodec'', ''pcm_s16le'',
           ''-ar'', ''44100'', ''-ac'', ''2'', audio_file]]
   \<and> (\<forall>status fs'.
         run_process ev (ffmpeg_command video_file audio_file) (fs w) = Inr (status, fs')
         \<and> status \<noteq> 0 \<longrightarrow>
         extract_audio ev video_file audio_file w
           = (Inl (CalledProcessError status (ffmpeg_command video_file audio_file)),
              w\<lparr>fs := fs', trace := trace w @ [Spawn (ffmpeg_command video_file audio_file)]\<rparr>))"
  by (auto simp: extract_audio_def subprocess_run_check_def and_then_def ffmpeg_command_def Let_def
      split: sum.splits prod.splits)

theorem extract_audio_command_and_failure_witness:
  "run_process sample_env (ffmpeg_command ''videos/b.mov'' ''out/audio.wav'') sample_fs
     = Inr (1, sample_fs)
   \<and> extract_audio sample_env ''videos/b.mov'' ''out/audio.wav'' (sample_world [])
     = (Inl (CalledProcessError 1 (ffmpeg_command ''videos/b.mov'' ''out/audio.wav'')),
        (sample_world [])\<lparr>trace := [Spawn (ffmpeg_command ''videos/b.mov'' ''out/audio.wav'')]\<rparr>)"
  using extract_audio_command_and_failure
          [of sample_env "''videos/b.mov''" "''out/audio.wav''" "sample_world []"]
  by (simp add: sample_env_def sample_world_def)

lemma and_then_input [simp]:
  "stdin w = l # ls \<Longrightarrow>
   and_then (input p) f w = f l (w\<lparr>stdin := ls, trace := trace w @ [Prompt p]\<rparr>)"
  by (simp add: and_then_def input_def)

lemma print_files_apply:
  "print_files idx vs w
     = (Inr (), w\<lparr>trace := trace w
          @ map (\<lambda>(i, file). Print (''  '' @ GREEN @ str_of_nat i @ ''.'' @ RESET @ '' '' @ file))
              (zip [idx ..< idx + length vs] vs)\<rparr>)"
proof (induction vs arbitrary: idx w)
  case Nil
  then show ?case by (simp add: ret_def)
next
  case (Cons v vs)
  have "[idx ..< idx + length (v # vs)] = idx # [Suc idx ..< Suc idx + length vs]"
    by (simp add: upt_rec)
  then show ?case
    by (simp add: Cons.IH del: str_of_nat.simps)
qed

lemma and_then_print_files [simp]:
  "and_then (print_files idx vs) f w
     = f () (w\<lparr>trace := trace w
          @ map (\<lambda>(i, file). Print (''  '' @ GREEN @ str_of_nat i @ ''.'' @ RESET @ '' '' @ file))
              (zip [idx ..< idx + length vs] vs)\<rparr>)"
  by (simp add: and_then_def print_files_apply)

lemma choose_video_file_listed:
  assumes "stdin w = dline # cline # rest"
    and "directory = (if py_strip dline = [] then cwd w else py_strip dline)"
    and "path_isdir (fs w) directory"
    and "listing (fs w) directory = Inr names"
    and "video_files = filter is_video names"
    and "video_files \<noteq> []"
  shows "choose_video_file w =
     (let choice = py_strip cline;
          w' = w\<lparr>stdin := rest, trace := trace w @ listing_events directory video_files\<rparr>
      in if py_isdigit choice then
           and_then (py_int choice) (\<lambda>index.
              if 1 \<le> index \<and> index \<le> int (length video_files)
              then ret (Some (path_join directory (video_files ! nat (index - 1))))
              else and_then (print (RED @ ''Invalid selection number.'' @ RESET))
                     (\<lambda>_. ret None)) w'
         else if path_exists (fs w) (path_join directory choice)
           then (Inr (Some (path_join directory choice)), w')
           else (Inr None, w'\<lparr>trace := trace w' @ [Print (RED @ ''File not found.'' @ RESET)]\<rparr>))"
proof (cases "py_strip dline = []")
  case True
  with assms(2) have d: "cwd w = directory" by simp
  show ?thesis
    using assms(1,3,4,6) True
    by (simp add: choose_video_file_def os_listdir_def select_video_def listing_events_def
        Let_def ret_def d assms(5) [symmetric] del: str_of_nat.simps)
next
  case False
  with assms(2) have d: "py_strip dline = directory" by simp
  show ?thesis
    using assms(1,3,4,6) False
    by (simp add: choose_video_file_def os_listdir_def select_video_def listing_events_def
        Let_def ret_def d assms(5) [symmetric] del: str_of_nat.simps)
qed


lemma ascii_digits_isdigit:
  "s \<noteq> [] \<Longrightarrow> list_all ascii_digit s \<Longrightarrow> py_isdigit s"
  by (simp add: py_isdigit_def py_isdigit_char_def list_all_iff)

lemma drop_slashes_snoc: "p \<noteq> [] \<Longrightarrow> drop_slashes (p @ ''/'') = drop_slashes p"
  by (simp add: drop_slashes_def)

lemma path_join_empty:
  "path_join d [] = (if d = [] \<or> endswith d ''/'' then d else d @ ''/'')"
  by (simp add: path_join_def startswith_def)

lemma isdir_join_empty: "path_isdir fs0 (path_join d []) = path_isdir fs0 d"
  by (simp add: path_join_empty path_isdir_def drop_slashes_snoc)

section \<open>The selector\<close>

text \<open>Values on the sample file system.\<close>

lemma sample_strips:
  "py_strip ''videos'' = ''videos''" "py_strip '' 2 '' = ''2''" "py_strip ''3'' = ''3''"
  "py_strip ''notes.txt'' = ''notes.txt''" "py_strip ''  '' = []" "py_strip ''out'' = ''out''"
  "py_strip ''nowhere'' = ''nowhere''" "py_strip ''locked'' = ''locked''"
  by (simp_all add: py_strip_def py_isspace_def)

lemma sample_videos:
  "filter is_video [''notes.txt'', ''talk.MP4'', ''b.mov''] = [''talk.MP4'', ''b.mov'']"
  by code_simp

lemma sample_dirs:
  "path_isdir sample_fs ''videos''" "path_isdir sample_fs ''out''"
  "path_isdir sample_fs ''locked''" "\<not> path_isdir sample_fs ''nowhere''"
  by (simp_all add: sample_fs_def path_isdir_def drop_slashes_def)







lemma empty_not_isdigit: "\<not> py_isdigit []"
  by (simp add: py_isdigit_def)

text \<open>
  Claim C4 says that an empty selection (after stripping) gives \<open>None\<close>. The code has
  no case for it: the empty string is not a number, the candidate is the directory joined
  with the empty string, which exists because the directory does, and that path, the
  directory itself, is returned.
\<close>

theorem choose_video_file_empty_selection:
  assumes "stdin w = dline # cline # rest"
    and "directory = (if py_strip dline = [] then cwd w else py_strip dline)"
    and "path_isdir (fs w) directory"
    and "listing (fs w) directory = Inr names"
    and "video_files = filter is_video names"
    and "video_files \<noteq> []"
    and "py_strip cline = []"
  shows "choose_video_file w =
     (Inr (Some (path_join directory [])),
      w\<lparr>stdin := rest, trace := trace w @ listing_events directory video_files\<rparr>)"
proof -
  have "path_exists (fs w) (path_join directory [])"
    using assms(3) by (simp add: path_exists_def isdir_join_empty)
  then show ?thesis
    unfolding choose_video_file_listed [OF assms(1-6)]
    by (simp add: Let_def assms(7) empty_not_isdigit)
qed

theorem choose_video_file_empty_selection_witness:
  "choose_video_file (sample_world [''videos'', ''  ''])
     = (Inr (Some ''videos/''),
        (sample_world [''videos'', ''  ''])
          \<lparr>stdin := [], trace := listing_events ''videos'' [''talk.MP4'', ''b.mov'']\<rparr>)"
proof -
  let ?w = "sample_world [''videos'', ''  '']"
  have h1: "stdin ?w = ''videos'' # ''  '' # []"
    by (simp add: sample_world_def)
  have h2: "''videos'' = (if py_strip ''videos'' = [] then cwd ?w else py_strip ''videos'')"
    by (simp add: sample_strips)
  have h3: "path_isdir (fs ?w) ''videos''"
    by (simp add: sample_world_def sample_dirs)
  have h4: "listing (fs ?w) ''videos'' = Inr [''notes.txt'', ''talk.MP4'', ''b.mov'']"
    by (simp add: sample_world_def sample_fs_def)
  have h5: "[''talk.MP4'', ''b.mov''] = filter is_video [''notes.txt'', ''talk.MP4'', ''b.mov'']"
    by (rule sample_videos [symmetric])
  have h6: "[''talk.MP4'', ''b.mov''] \<noteq> []"
    by simp
  have h7: "py_strip ''  '' = []"
    by (simp add: sample_strips)
  have j: "path_join ''videos'' [] = ''videos/''"
    by (simp add: path_join_def startswith_def endswith_def)
  show ?thesis
    using choose_video_file_empty_selection [OF h1 h2 h3 h4 h5 h6 h7]
    by (simp add: j sample_world_def)
qed

text \<open>
  Claim C6. When the selection prompt is reached (the directory exists and lists at least
  one video file) and the selection is not a number and names something that exists
  under the directory, the selector returns the directory joined with the selection,
  whatever the extension of the name.
\<close>

theorem choose_video_file_by_name:
  assumes "stdin w = dline # cline # rest"
    and "directory = (if py_strip dline = [] then cwd w else py_strip dline)"
    and "path_isdir (fs w) directory"
    and "listing (fs w) directory = Inr names"
    and "video_files = filter is_video names"
    and "video_files \<noteq> []"
    and "\<not> py_isdigit (py_strip cline)"
    and "path_exists (fs w) (path_join directory (py_strip cline))"
  shows "choose_video_file w =
     (Inr (Some (path_join directory (py_strip cline))),
      w\<lparr>stdin := rest, trace := trace w @ listing_events directory video_files\<rparr>)"
  unfolding choose_video_file_listed [OF assms(1-6)]
  using assms(7,8) by (simp add: Let_def)

theorem choose_video_file_by_name_witness:
  "\<not> is_video ''notes.txt''
   \<and> choose_video_file (sample_world [''videos'', ''notes.txt''])
     = (Inr (Some ''videos/notes.txt''),
        (sample_world [''videos'', ''notes.txt''])
          \<lparr>stdin := [], trace := listing_events ''videos'' [''talk.MP4'', ''b.mov'']\<rparr>)"
proof -
  let ?w = "sample_world [''videos'', ''notes.txt'']"
  have h1: "stdin ?w = ''videos'' # ''notes.txt'' # []"
    by (simp add: sample_world_def)
  have h2: "''videos'' = (if py_strip ''videos'' = [] then cwd ?w else py_strip ''videos'')"
    by (simp add: sample_strips)
  have h3: "path_isdir (fs ?w) ''videos''"
    by (simp add: sample_world_def sample_dirs)
  have h4: "listing (fs ?w) ''videos'' = Inr [''notes.txt'', ''talk.MP4'', ''b.mov'']"
    by (simp add: sample_world_def sample_fs_def)
  have h5: "[''talk.MP4'', ''b.mov''] = filter is_video [''notes.txt'', ''talk.MP4'', ''b.mov'']"
    by (rule sample_videos [symmetric])
  have h6: "[''talk.MP4'', ''b.mov''] \<noteq> []"
    by simp
  have h7: "\<not> py_isdigit (py_strip ''notes.txt'')"
    by (simp add: sample_strips py_isdigit_def py_isdigit_char_def ascii_digit_def)
  have j: "path_join ''videos'' ''notes.txt'' = ''videos/notes.txt''"
    by (simp add: path_join_def startswith_def endswith_def)
  have h8: "path_exists (fs ?w) (path_join ''videos'' (py_strip ''notes.txt''))"
    by (simp add: sample_strips j sample_world_def sample_fs_def path_exists_def)
  have nv: "\<not> is_video ''notes.txt''"
    by code_simp
  show ?thesis
    using choose_video_file_by_name [OF h1 h2 h3 h4 h5 h6 h7 h8] nv
    by (simp add: j sample_strips sample_world_def)
qed




section \<open>The summarizer\<close>

lemma generate_summary_apply:
  "generate_summary ev t w =
     (let w1 = w\<lparr>trace := trace w
                  @ [Print (BLUE @ ''Generating summary with OpenAI API...'' @ RESET),
                     Chat (summary_request t)]\<rparr>
      in case chat_create ev (summary_request t) of
           Inl e \<Rightarrow> (Inl e, w1)
         | Inr [] \<Rightarrow> (Inl IndexError, w1)
         | Inr (None # cs) \<Rightarrow> (Inl AttributeError, w1)
         | Inr (Some c # cs) \<Rightarrow>
             (Inr (py_strip c),
              w\<lparr>trace := trace w
                  @ [Print (BLUE @ ''Generating summary with OpenAI API...'' @ RESET),
                     Chat (summary_request t),
                     Print (GREEN @ ''Summary generated.'' @ RESET)]\<rparr>))"
  by (simp add: generate_summary_def chat_completion_def first_choice_text_def and_then_def
      ret_def raise_def Let_def split: sum.splits list.splits option.splits)

lemma generate_flashcards_apply:
  "generate_flashcards ev s t w =
     (let w1 = w\<lparr>trace := trace w
                  @ [Print (BLUE @ ''Generating flashcards with OpenAI API...'' @ RESET),
                     Chat (flashcards_request s t)]\<rparr>
      in case chat_create ev (flashcards_request s t) of
           Inl e \<Rightarrow> (Inl e, w1)
         | Inr [] \<Rightarrow> (Inl IndexError, w1)
         | Inr (None # cs) \<Rightarrow> (Inl AttributeError, w1)
         | Inr (Some c # cs) \<Rightarrow>
             (Inr (py_strip c),
              w\<lparr>trace := trace w
                  @ [Print (BLUE @ ''Generating flashcards with OpenAI API...'' @ RESET),
                     Chat (flashcards_request s t),
                     Print (GREEN @ ''Flashcards generated.'' @ RESET)]\<rparr>))"
  by (simp add: generate_flashcards_def chat_completion_def first_choice_text_def and_then_def
      ret_def raise_def Let_def split: sum.splits list.splits option.splits)

text \<open>
  Claim C8, amended. Every call of \<open>generate_summary\<close> sends exactly one request, to the
  model \<open>gpt-4o\<close>, with two messages: one of role \<open>developer\<close> with the content
  "You are a helpful assistant." and one of role \<open>user\<close> whose content is the fixed
  prompt with the transcript in it unchanged; when the completion has a first choice
  with text, the call returns that text stripped.
\<close>

theorem generate_summary_request:
  "chats (trace (snd (generate_summary ev transcription w)))
     = chats (trace w)
       @ [\<lparr>model = ''gpt-4o'',
           messages =
             [\<lparr>role = ''developer'', content = ''You are a helpful assistant.''\<rparr>,
              \<lparr>role = ''user'',
               content = ''Please generate a concise and informative summary for the following reading club transcription:\<newline>\<newline>''
                         @ transcription @ ''\<newline>\<newline>Summary:''\<rparr>]\<rparr>]
   \<and> (\<forall>c cs. chat_create ev (summary_request transcription) = Inr (Some c # cs) \<longrightarrow>
          fst (generate_summary ev transcription w) = Inr (py_strip c))"
  by (simp add: generate_summary_apply Let_def summary_request_def chat_messages_def
      summary_prompt_def split: sum.splits list.splits option.splits)

theorem generate_summary_request_witness:
  "chat_create sample_env (summary_request ''we read'') = Inr [Some '' a reply '', Some ''another'']
   \<and> fst (generate_summary sample_env ''we read'' (sample_world [])) = Inr ''a reply''"
proof -
  have c: "chat_create sample_env (summary_request ''we read'')
             = Inr (Some '' a reply '' # [Some ''another''])"
    by (simp add: sample_env_def)
  have s: "py_strip '' a reply '' = ''a reply''"
    by (simp add: py_strip_def py_isspace_def)
  show ?thesis
    using generate_summary_request [of sample_env "''we read''" "sample_world []"] c
    by (simp add: s)
qed

text \<open>
  Claim C8 as stated fails: the first message of the request does not have the role
  \<open>system\<close> and its content is not "You are a helpful assistant" without the full stop.
\<close>

theorem generate_summary_request_counterexample:
  "map messages (chats (trace (snd (generate_summary sample_env ''we read'' (sample_world [])))))
     \<noteq> [[\<lparr>role = ''system'', content = ''You are a helpful assistant''\<rparr>,
          \<lparr>role = ''user'', content = summary_prompt ''we read''\<rparr>]]"
  by (simp add: generate_summary_apply Let_def sample_env_def sample_world_def
      summary_request_def chat_messages_def)

section \<open>The menu: common facts\<close>

lemma print_all_apply: "print_all ls w = (Inr (), w\<lparr>trace := trace w @ map Print ls\<rparr>)"
  by (induction ls arbitrary: w) (simp_all add: ret_def)

lemma and_then_print_all [simp]:
  "and_then (print_all ls) f w = f () (w\<lparr>trace := trace w @ map Print ls\<rparr>)"
  by (simp add: and_then_def print_all_apply)

lemma and_then_makedirs:
  "makedirs ev p (fs w) = (r, fs1) \<Longrightarrow>
   and_then (os_makedirs ev p) f w
     = (case r of
          None \<Rightarrow> f () (w\<lparr>fs := fs1, trace := trace w @ [Makedirs p]\<rparr>)
        | Some e \<Rightarrow> (Inl e, w\<lparr>fs := fs1, trace := trace w @ [Makedirs p]\<rparr>))"
  by (simp add: and_then_def os_makedirs_def split: option.splits)

lemma interactive_menu_prologue:
  assumes "stdin w = cline # fline # rest"
    and "makedirs ev (output_folder_of fline) (fs w) = (r, fs1)"
  shows "interactive_menu ev w =
     (case r of
        None \<Rightarrow>
          dispatch ev (py_strip cline)
            (path_join (output_folder_of fline) ''transcription.txt'')
            (path_join (output_folder_of fline) ''summary.txt'')
            (path_join (output_folder_of fline) ''flashcards.csv'')
            (path_join (output_folder_of fline) ''audio.wav'')
            (w\<lparr>stdin := rest, fs := fs1, trace := trace w @ prologue (output_folder_of fline)\<rparr>)
      | Some e \<Rightarrow>
          (Inl e, w\<lparr>stdin := rest, fs := fs1,
                    trace := trace w @ prologue (output_folder_of fline)\<rparr>))"
proof -
  have "and_then (os_makedirs ev (output_folder_of fline)) f w1
          = (case r of
               None \<Rightarrow> f () (w1\<lparr>fs := fs1, trace := trace w1 @ [Makedirs (output_folder_of fline)]\<rparr>)
             | Some e \<Rightarrow> (Inl e, w1\<lparr>fs := fs1, trace := trace w1 @ [Makedirs (output_folder_of fline)]\<rparr>))"
    if "fs w1 = fs w" for f :: "unit \<Rightarrow> unit prog" and w1
    using that assms(2) by (simp add: and_then_makedirs)
  with assms(1) show ?thesis
    by (simp add: interactive_menu_def print_header_def Let_def prologue_def split: option.splits)
qed

lemma appends_onlyI: "(\<And>w. \<exists>evs. trace (snd (m w)) = trace w @ evs) \<Longrightarrow> appends_only m"
  by (simp add: appends_only_def)

lemma appends_onlyD: "appends_only m \<Longrightarrow> \<exists>evs. trace (snd (m w)) = trace w @ evs"
  by (simp add: appends_only_def)

lemma appends_only_ret: "appends_only (ret x)"
  by (simp add: appends_only_def ret_def)

lemma appends_only_raise: "appends_only (raise e)"
  by (simp add: appends_only_def raise_def)

lemma appends_only_print: "appends_only (print s)"
  by (simp add: appends_only_def)

lemma appends_only_print_all: "appends_only (print_all ls)"
  by (simp add: appends_only_def print_all_apply)

lemma appends_only_input: "appends_only (input p)"
  by (simp add: appends_only_def input_def split: list.splits)

lemma appends_only_read_file: "appends_only (read_file ev p)"
  by (simp add: appends_only_def read_file_def)

lemma appends_only_write_file: "appends_only (write_file ev p c)"
  by (simp add: appends_only_def write_file_def split: prod.splits option.splits)

lemma appends_only_run: "appends_only (subprocess_run_check ev c)"
  by (simp add: appends_only_def subprocess_run_check_def Let_def split: sum.splits prod.splits)

lemma appends_only_load: "appends_only (whisper_load_model ev n)"
  by (simp add: appends_only_def whisper_load_model_def split: option.splits)

lemma appends_only_transcribe: "appends_only (whisper_transcribe ev m a)"
  by (simp add: appends_only_def whisper_transcribe_def)

lemma appends_only_chat: "appends_only (chat_completion ev r)"
  by (simp add: appends_only_def chat_completion_def)

lemma appends_only_first_choice: "appends_only (first_choice_text cs)"
  by (simp add: first_choice_text_def appends_only_ret appends_only_raise
      split: list.splits option.splits)

lemma appends_only_and_then:
  assumes "appends_only m" and "\<And>x. appends_only (f x)"
  shows "appends_only (and_then m f)"
proof (rule appends_onlyI)
  fix w
  obtain r w1 where m: "m w = (r, w1)"
    by (cases "m w")
  from appends_onlyD [OF assms(1), of w] m obtain evs where e1: "trace w1 = trace w @ evs"
    by auto
  show "\<exists>evs. trace (snd (and_then m f w)) = trace w @ evs"
  proof (cases r)
    case (Inl e)
    with m e1 show ?thesis by (simp add: and_then_def)
  next
    case (Inr x)
    from appends_onlyD [OF assms(2), of x w1] obtain evs' where
      "trace (snd (f x w1)) = trace w1 @ evs'" by auto
    with m e1 Inr show ?thesis by (simp add: and_then_def)
  qed
qed

lemma appends_only_if_world:
  assumes "appends_only m" and "appends_only m'"
  shows "appends_only (\<lambda>w. if P w then m w else m' w)"
  using assms by (simp add: appends_only_def)

lemma appends_only_if:
  assumes "appends_only m" and "appends_only m'"
  shows "appends_only (if c then m else m')"
  using assms by simp

lemma appends_only_with_video:
  assumes "\<And>v. appends_only (k v)"
  shows "appends_only (with_video video_file k)"
  using assms by (simp add: with_video_def appends_only_ret split: option.splits)

lemmas appends_only_intros =
  appends_only_and_then appends_only_if appends_only_with_video
  appends_only_ret appends_only_raise appends_only_print appends_only_print_all
  appends_only_input appends_only_read_file appends_only_write_file appends_only_run
  appends_only_load appends_only_transcribe appends_only_chat appends_only_first_choice

lemma appends_only_extract_audio: "appends_only (extract_audio ev v a)"
  unfolding extract_audio_def by (intro appends_only_intros)

lemma appends_only_transcribe_audio: "appends_only (transcribe_audio ev a t)"
  unfolding transcribe_audio_def by (intro appends_only_intros)

lemma appends_only_generate_summary: "appends_only (generate_summary ev t)"
  unfolding generate_summary_def by (intro appends_only_intros)

lemma appends_only_generate_flashcards: "appends_only (generate_flashcards ev s t)"
  unfolding generate_flashcards_def by (intro appends_only_intros)

lemma appends_only_py_int: "appends_only (py_int s)"
  by (simp add: py_int_def appends_only_ret appends_only_raise)

lemma appends_only_select_video: "appends_only (select_video d vs)"
proof -
  have pf: "appends_only (print_files idx xs)" for idx xs
    by (simp add: appends_only_def print_files_apply)
  show ?thesis
    unfolding select_video_def Let_def
    by (intro appends_only_intros appends_only_if_world appends_only_py_int pf)
qed

lemma appends_only_choose_video_file: "appends_only choose_video_file"
proof -
  have body: "appends_only (\<lambda>w.
       let directory = (if py_strip line = [] then cwd w else py_strip line)
       in if \<not> path_isdir (fs w) directory then
            and_then (print (RED @ ''Directory does not exist.'' @ RESET)) (\<lambda>_. ret None) w
          else
            (case os_listdir directory w of
               (Inl PermissionError, w1) \<Rightarrow>
                 and_then (print (RED @ ''Permission error: Cannot access '' @ directory
                                  @ ''. Please check your system permissions.'' @ RESET))
                   (\<lambda>_. ret None) w1
             | (Inl e, w1) \<Rightarrow> raise e w1
             | (Inr names, w1) \<Rightarrow>
                 (let video_files = filter is_video names
                  in if video_files = [] then
                       and_then (print (YELLOW @ ''No video files found in that directory.'' @ RESET))
                         (\<lambda>_. ret None) w1
                     else select_video directory video_files w1)))" for line
  proof (rule appends_onlyI)
    fix w
    show "\<exists>evs. trace (snd (
       let directory = (if py_strip line = [] then cwd w else py_strip line)
       in if \<not> path_isdir (fs w) directory then
            and_then (print (RED @ ''Directory does not exist.'' @ RESET)) (\<lambda>_. ret None) w
          else
            (case os_listdir directory w of
               (Inl PermissionError, w1) \<Rightarrow>
                 and_then (print (RED @ ''Permission error: Cannot access '' @ directory
                                  @ ''. Please check your system permissions.'' @ RESET))
                   (\<lambda>_. ret None) w1
             | (Inl e, w1) \<Rightarrow> raise e w1
             | (Inr names, w1) \<Rightarrow>
                 (let video_files = filter is_video names
                  in if video_files = [] then
                       and_then (print (YELLOW @ ''No video files found in that directory.'' @ RESET))
                         (\<lambda>_. ret None) w1
                     else select_video directory video_files w1)))) = trace w @ evs"
      using appends_onlyD [OF appends_only_select_video, of _ _ w]
      by (auto simp: Let_def os_listdir_def ret_def raise_def split: sum.splits exn.splits)
  qed
  show ?thesis
    unfolding choose_video_file_def
    by (intro appends_only_and_then appends_only_input body)
qed

lemma appends_only_dispatch: "appends_only (dispatch ev c tf sf ff af)"
  unfolding dispatch_def
  by (intro appends_only_intros appends_only_if_world appends_only_choose_video_file
      appends_only_extract_audio appends_only_transcribe_audio
      appends_only_generate_summary appends_only_generate_flashcards)

lemma interactive_menu_trace:
  assumes "stdin w = cline # fline # rest"
  shows "\<exists>evs. trace (snd (interactive_menu ev w))
                 = trace w @ prologue (output_folder_of fline) @ evs"
proof -
  obtain r fs1 where m: "makedirs ev (output_folder_of fline) (fs w) = (r, fs1)"
    by (cases "makedirs ev (output_folder_of fline) (fs w)")
  show ?thesis
  proof (cases r)
    case None
    let ?w1 = "w\<lparr>stdin := rest, fs := fs1,
                 trace := trace w @ prologue (output_folder_of fline)\<rparr>"
    obtain evs where
      "trace (snd (dispatch ev (py_strip cline)
         (path_join (output_folder_of fline) ''transcription.txt'')
         (path_join (output_folder_of fline) ''summary.txt'')
         (path_join (output_folder_of fline) ''flashcards.csv'')
         (path_join (output_folder_of fline) ''audio.wav'') ?w1)) = trace ?w1 @ evs"
      using appends_onlyD [OF appends_only_dispatch] by blast
    then show ?thesis
      unfolding interactive_menu_prologue [OF assms m] None by simp
  next
    case (Some e)
    show ?thesis
      unfolding interactive_menu_prologue [OF assms m] Some by simp
  qed
qed

section \<open>The menu: the output folder\<close>

lemma sample_folders:
  "output_folder_of ''out'' = ''out''" "output_folder_of [] = ''outputs''"
  "output_folder_of ''out/summary.txt/x'' = ''out/summary.txt/x''"
  by (simp_all add: output_folder_of_def py_strip_def py_isspace_def)

lemma sample_choices:
  "py_strip ''4'' = ''4''" "py_strip ''5'' = ''5''" "py_strip ''6'' = ''6''"
  "py_strip ''7'' = ''7''" "py_strip ''hello'' = ''hello''"
  by (simp_all add: py_strip_def py_isspace_def)

lemma sample_joins:
  "path_join ''out'' ''transcription.txt'' = ''out/transcription.txt''"
  "path_join ''out'' ''summary.txt'' = ''out/summary.txt''"
  "path_join ''out'' ''flashcards.csv'' = ''out/flashcards.csv''"
  "path_join ''out'' ''audio.wav'' = ''out/audio.wav''"
  by (simp_all add: path_join_def startswith_def endswith_def)

lemma sample_prefixes:
  "dir_prefixes ''out'' = [''out'']"
  "dir_prefixes ''out/summary.txt/x'' = [''out'', ''out/summary.txt'', ''out/summary.txt/x'']"
  by code_simp+

lemma makedirs_out_empty:
  "makedirs sample_env ''out'' empty_fs = (None, mkdir_one ''out'' empty_fs)"
  by (simp add: sample_env_def sample_makedirs_def sample_prefixes empty_fs_def path_isdir_def
      drop_slashes_def)

lemma makedirs_out_sample:
  "makedirs sample_env ''out'' sample_fs = (None, sample_fs)"
  by (simp add: sample_env_def sample_makedirs_def sample_dirs)

lemma makedirs_under_file:
  "makedirs sample_env ''out/summary.txt/x'' sample_fs = (Some NotADirectoryError, sample_fs)"
  by (simp add: sample_env_def sample_makedirs_def sample_prefixes)
     (simp add: sample_fs_def path_isdir_def drop_slashes_def)

lemma isdir_out_made: "path_isdir (mkdir_one ''out'' empty_fs) ''out''"
  by (simp add: mkdir_one_def empty_fs_def path_isdir_def drop_slashes_def)

text \<open>
  Claim C10, amended. In every run of the menu that gets its two answers, the prompt for
  the output folder and the call of \<open>os.makedirs\<close> on it come before anything the chosen
  branch does. When the call succeeds the branch starts in the file system the call
  left, and choice 7 and any invalid choice leave exactly that file system and print one
  line. When the call raises, the error is the outcome of the run and no branch is run.
\<close>

theorem interactive_menu_creates_folder_first:
  assumes "stdin w = cline # fline # rest"
    and "out = output_folder_of fline"
    and "makedirs ev out (fs w) = (r, fs1)"
  shows "(\<exists>evs. trace (snd (interactive_menu ev w)) = trace w @ prologue out @ evs)
    \<and> (r = None \<longrightarrow>
         interactive_menu ev w =
           dispatch ev (py_strip cline)
             (path_join out ''transcription.txt'') (path_join out ''summary.txt'')
             (path_join out ''flashcards.csv'') (path_join out ''audio.wav'')
             (w\<lparr>stdin := rest, fs := fs1, trace := trace w @ prologue out\<rparr>)
         \<and> (py_strip cline \<notin> {''1'', ''2'', ''3'', ''4'', ''5'', ''6''} \<longrightarrow>
              interactive_menu ev w =
                (Inr (),
                 w\<lparr>stdin := rest, fs := fs1,
                   trace := trace w @ prologue out
                     @ [Print (if py_strip cline = ''7'' then GREEN @ ''Goodbye!'' @ RESET
                               else RED @ ''Invalid choice. Exiting.'' @ RESET)]\<rparr>)))
    \<and> (\<forall>e. r = Some e \<longrightarrow>
          interactive_menu ev w =
            (Inl e, w\<lparr>stdin := rest, fs := fs1, trace := trace w @ prologue out\<rparr>))"
proof -
  have m: "makedirs ev (output_folder_of fline) (fs w) = (r, fs1)"
    using assms(3) by (simp add: assms(2))
  have t: "\<exists>evs. trace (snd (interactive_menu ev w)) = trace w @ prologue out @ evs"
    unfolding assms(2) using assms(1) by (rule interactive_menu_trace)
  have p: "interactive_menu ev w =
     (case r of
        None \<Rightarrow>
          dispatch ev (py_strip cline)
            (path_join out ''transcription.txt'') (path_join out ''summary.txt'')
            (path_join out ''flashcards.csv'') (path_join out ''audio.wav'')
            (w\<lparr>stdin := rest, fs := fs1, trace := trace w @ prologue out\<rparr>)
      | Some e \<Rightarrow> (Inl e, w\<lparr>stdin := rest, fs := fs1, trace := trace w @ prologue out\<rparr>))"
    unfolding assms(2) using assms(1) m by (rule interactive_menu_prologue)
  have q: "dispatch ev (py_strip cline)
             (path_join out ''transcription.txt'') (path_join out ''summary.txt'')
             (path_join out ''flashcards.csv'') (path_join out ''audio.wav'')
             (w\<lparr>stdin := rest, fs := fs1, trace := trace w @ prologue out\<rparr>)
         = (Inr (),
            w\<lparr>stdin := rest, fs := fs1,
              trace := trace w @ prologue out
                @ [Print (if py_strip cline = ''7'' then GREEN @ ''Goodbye!'' @ RESET
                          else RED @ ''Invalid choice. Exiting.'' @ RESET)]\<rparr>)"
    if "py_strip cline \<notin> {''1'', ''2'', ''3'', ''4'', ''5'', ''6''}"
    using that by (simp add: dispatch_def)
  from t p q show ?thesis
    by (cases r) simp_all
qed

theorem interactive_menu_creates_folder_first_witness:
  "makedirs sample_env ''out'' (fs (empty_world [''7'', ''out''])) = (None, mkdir_one ''out'' empty_fs)
   \<and> \<not> path_isdir (fs (empty_world [''7'', ''out''])) ''out''
   \<and> path_isdir (mkdir_one ''out'' empty_fs) ''out''
   \<and> interactive_menu sample_env (empty_world [''7'', ''out''])
       = (Inr (),
          (empty_world [''7'', ''out''])
            \<lparr>stdin := [], fs := mkdir_one ''out'' empty_fs,
              trace := prologue ''out'' @ [Print (GREEN @ ''Goodbye!'' @ RESET)]\<rparr>)"
proof -
  let ?w = "empty_world [''7'', ''out'']"
  have h1: "stdin ?w = ''7'' # ''out'' # []"
    by (simp add: empty_world_def)
  have h2: "''out'' = output_folder_of ''out''"
    by (simp add: sample_folders)
  have h3: "makedirs sample_env ''out'' (fs ?w) = (None, mkdir_one ''out'' empty_fs)"
    by (simp add: empty_world_def makedirs_out_empty)
  have nd: "\<not> path_isdir (fs ?w) ''out''"
    by (simp add: empty_world_def empty_fs_def path_isdir_def)
  have c: "py_strip ''7'' \<notin> {''1'', ''2'', ''3'', ''4'', ''5'', ''6''}"
    by (simp add: sample_choices)
  have tr: "trace ?w = []"
    by (simp add: empty_world_def)
  have r: "interactive_menu sample_env ?w =
             (Inr (),
              ?w\<lparr>stdin := [], fs := mkdir_one ''out'' empty_fs,
                 trace := trace ?w @ prologue ''out''
                   @ [Print (if py_strip ''7'' = ''7'' then GREEN @ ''Goodbye!'' @ RESET
                             else RED @ ''Invalid choice. Exiting.'' @ RESET)]\<rparr>)"
    using interactive_menu_creates_folder_first [OF h1 h2 h3] c by blast
  show ?thesis
    using r nd h3 isdir_out_made by (simp add: tr sample_choices)
qed

text \<open>
  Claim C10 as stated fails: with choice 7 and the output folder
  \<open>out/summary.txt/x\<close>, where \<open>out/summary.txt\<close> is a regular file, \<open>os.makedirs\<close>
  raises \<open>NotADirectoryError\<close>; the run ends with that error, no directory is created
  and nothing is dispatched.
\<close>

theorem interactive_menu_creates_folder_first_counterexample:
  "files (fs (sample_world [''7'', ''out/summary.txt/x''])) ''out/summary.txt'' = Some ''an old summary''
   \<and> interactive_menu sample_env (sample_world [''7'', ''out/summary.txt/x''])
       = (Inl NotADirectoryError,
          (sample_world [''7'', ''out/summary.txt/x''])
            \<lparr>stdin := [], trace := prologue ''out/summary.txt/x''\<rparr>)
   \<and> \<not> path_isdir (fs (snd (interactive_menu sample_env (sample_world [''7'', ''out/summary.txt/x'']))))
         ''out/summary.txt/x''"
proof -
  let ?w = "sample_world [''7'', ''out/summary.txt/x'']"
  have h1: "stdin ?w = ''7'' # ''out/summary.txt/x'' # []"
    by (simp add: sample_world_def)
  have m: "makedirs sample_env (output_folder_of ''out/summary.txt/x'') (fs ?w)
             = (Some NotADirectoryError, sample_fs)"
    by (simp add: sample_folders sample_world_def makedirs_under_file)
  have f: "files (fs ?w) ''out/summary.txt'' = Some ''an old summary''"
    by (simp add: sample_world_def sample_fs_def)
  have r: "interactive_menu sample_env ?w
             = (Inl NotADirectoryError, ?w\<lparr>stdin := [], trace := prologue ''out/summary.txt/x''\<rparr>)"
    unfolding interactive_menu_prologue [OF h1 m]
    by (simp add: sample_folders sample_world_def)
  have n: "\<not> path_isdir (fs (snd (interactive_menu sample_env ?w))) ''out/summary.txt/x''"
    unfolding r by (simp add: sample_world_def sample_fs_def path_isdir_def drop_slashes_def)
  from f r n show ?thesis by simp
qed

section \<open>The menu: a missing transcription\<close>

text \<open>
  Claim C2, amended. When option 4, 5 or 6 is chosen, the creation of the output folder
  succeeds and the transcription file does not exist, the run prints the
  missing-transcription message and does nothing else: it writes no file, and the file
  system it leaves is the one \<open>os.makedirs\<close> left, so the only change is the output
  folder created when it was absent.
\<close>

theorem interactive_menu_missing_transcription:
  assumes "stdin w = cline # fline # rest"
    and "out = output_folder_of fline"
    and "py_strip cline \<in> {''4'', ''5'', ''6''}"
    and "makedirs ev out (fs w) = (None, fs1)"
    and "\<not> path_exists fs1 (path_join out ''transcription.txt'')"
  shows "interactive_menu ev w =
           (Inr (),
            w\<lparr>stdin := rest, fs := fs1,
              trace := trace w @ prologue out @ [Print missing_transcription]\<rparr>)"
proof -
  have m: "makedirs ev (output_folder_of fline) (fs w) = (None, fs1)"
    using assms(4) by (simp add: assms(2))
  show ?thesis
    unfolding interactive_menu_prologue [OF assms(1) m] assms(2) [symmetric]
    using assms(3,5) by (auto simp: dispatch_def)
qed

theorem interactive_menu_missing_transcription_witness:
  "makedirs sample_env ''out'' (fs (empty_world [''5'', ''out''])) = (None, mkdir_one ''out'' empty_fs)
   \<and> \<not> path_exists (mkdir_one ''out'' empty_fs) ''out/transcription.txt''
   \<and> interactive_menu sample_env (empty_world [''5'', ''out''])
       = (Inr (),
          (empty_world [''5'', ''out''])
            \<lparr>stdin := [], fs := mkdir_one ''out'' empty_fs,
              trace := prologue ''out'' @ [Print missing_transcription]\<rparr>)"
proof -
  let ?w = "empty_world [''5'', ''out'']"
  have h1: "stdin ?w = ''5'' # ''out'' # []"
    by (simp add: empty_world_def)
  have h2: "''out'' = output_folder_of ''out''"
    by (simp add: sample_folders)
  have h3: "py_strip ''5'' \<in> {''4'', ''5'', ''6''}"
    by (simp add: sample_choices)
  have h4: "makedirs sample_env ''out'' (fs ?w) = (None, mkdir_one ''out'' empty_fs)"
    by (simp add: empty_world_def makedirs_out_empty)
  have n: "\<not> path_exists (mkdir_one ''out'' empty_fs) ''out/transcription.txt''"
    by (simp add: mkdir_one_def empty_fs_def path_exists_def path_isdir_def drop_slashes_def)
  have h5: "\<not> path_exists (mkdir_one ''out'' empty_fs) (path_join ''out'' ''transcription.txt'')"
    using n by (simp add: sample_joins)
  have tr: "trace ?w = []"
    by (simp add: empty_world_def)
  show ?thesis
    using interactive_menu_missing_transcription [OF h1 h2 h3 h4 h5] h4 n
    by (simp add: tr)
qed

text \<open>
  Claim C2 as stated fails: with option 4, no transcription file and no folder
  \<open>out\<close> yet, the run creates the directory \<open>out\<close>, so the file system after the run
  is not the one before it.
\<close>

theorem interactive_menu_missing_transcription_counterexample:
  "\<not> path_exists (fs (empty_world [''4'', ''out''])) (path_join ''out'' ''transcription.txt'')
   \<and> \<not> path_isdir (fs (empty_world [''4'', ''out''])) ''out''
   \<and> path_isdir (fs (snd (interactive_menu sample_env (empty_world [''4'', ''out'']))))  ''out''
   \<and> fs (snd (interactive_menu sample_env (empty_world [''4'', ''out''])))
       \<noteq> fs (empty_world [''4'', ''out''])"
proof -
  let ?w = "empty_world [''4'', ''out'']"
  have h1: "stdin ?w = ''4'' # ''out'' # []"
    by (simp add: empty_world_def)
  have m: "makedirs sample_env (output_folder_of ''out'') (fs ?w)
             = (None, mkdir_one ''out'' empty_fs)"
    by (simp add: sample_folders empty_world_def makedirs_out_empty)
  have n1: "\<not> path_exists (fs ?w) (path_join ''out'' ''transcription.txt'')"
    by (simp add: empty_world_def empty_fs_def path_exists_def path_isdir_def)
  have n2: "\<not> path_isdir (fs ?w) ''out''"
    by (simp add: empty_world_def empty_fs_def path_isdir_def)
  have n3: "\<not> path_exists (mkdir_one ''out'' empty_fs) ''out/transcription.txt''"
    by (simp add: mkdir_one_def empty_fs_def path_exists_def path_isdir_def drop_slashes_def)
  have r: "fs (snd (interactive_menu sample_env ?w)) = mkdir_one ''out'' empty_fs"
    unfolding interactive_menu_prologue [OF h1 m]
    using n3 by (simp add: sample_folders sample_choices sample_joins dispatch_def)
  have d: "path_isdir (fs (snd (interactive_menu sample_env ?w))) ''out''"
    unfolding r by (rule isdir_out_made)
  from d n2 have "fs (snd (interactive_menu sample_env ?w)) \<noteq> fs ?w"
    by auto
  with n1 n2 d show ?thesis by simp
qed

section \<open>The menu: summaries and flashcards\<close>

lemma and_then_read_file:
  "and_then (read_file ev p) f w =
     (case read_text ev p (fs w) of
        Inl e \<Rightarrow> (Inl e, w\<lparr>trace := trace w @ [Read p]\<rparr>)
      | Inr c \<Rightarrow> f c (w\<lparr>trace := trace w @ [Read p]\<rparr>))"
  by (simp add: and_then_def read_file_def split: sum.splits)

lemma and_then_write_file:
  "and_then (write_file ev p c) f w =
     (case write_text ev p c (fs w) of
        (None, fs') \<Rightarrow> f () (w\<lparr>fs := fs', trace := trace w @ [Write p c]\<rparr>)
      | (Some e, fs') \<Rightarrow> (Inl e, w\<lparr>fs := fs', trace := trace w @ [Write p c]\<rparr>))"
  by (simp add: and_then_def write_file_def split: prod.splits option.splits)

lemma and_then_generate_summary:
  "and_then (generate_summary ev t) f w =
     (case generate_summary ev t w of (Inl e, w') \<Rightarrow> (Inl e, w') | (Inr x, w') \<Rightarrow> f x w')"
  by (simp add: and_then_def)

lemma and_then_generate_flashcards:
  "and_then (generate_flashcards ev s t) f w =
     (case generate_flashcards ev s t w of (Inl e, w') \<Rightarrow> (Inl e, w') | (Inr x, w') \<Rightarrow> f x w')"
  by (simp add: and_then_def)

lemma and_then_if_world:
  "and_then (\<lambda>w'. if P w' then m w' else m' w') f w
     = (if P w then and_then m f w else and_then m' f w)"
  by (simp add: and_then_def)

lemma path_join_relative:
  assumes "name \<noteq> []" and "hd name \<noteq> CHR ''/''"
  shows "path_join d name = (if d = [] \<or> endswith d ''/'' then d @ name else d @ ''/'' @ name)"
  using assms by (cases name) (simp_all add: path_join_def startswith_def)

lemma artefacts_distinct:
  "path_join out ''flashcards.csv'' \<noteq> path_join out ''summary.txt''"
  "path_join out ''summary.txt'' \<noteq> path_join out ''flashcards.csv''"
  by (simp_all add: path_join_relative)

lemma requests_distinct: "flashcards_request s t \<noteq> summary_request x"
  by (simp add: flashcards_request_def summary_request_def chat_messages_def
      flashcards_prompt_def summary_prompt_def)

lemma chats_map_Print [simp]: "chats (map Print ls) = []"
  by (induction ls) simp_all

lemma writes_map_Print [simp]: "writes (map Print ls) = []"
  by (induction ls) simp_all

lemma chats_prologue [simp]: "chats (prologue out) = []"
  by (simp add: prologue_def)

lemma writes_prologue [simp]: "writes (prologue out) = []"
  by (simp add: prologue_def)

lemma sample_reads:
  "read_text sample_env ''out/transcription.txt'' sample_fs = Inr ''we read chapter one''"
  "read_text sample_env ''out/summary.txt'' sample_fs = Inr ''an old summary''"
  by (simp_all add: sample_env_def sample_read_text_def sample_fs_def)

lemma crlf_reads:
  "read_text sample_env ''out/transcription.txt'' crlf_fs
     = Inr (''we read'' @ [CHR 0x0A] @ ''chapter one'')"
  "read_text sample_env ''out/summary.txt'' crlf_fs
     = Inr (''line one'' @ [CHR 0x0A] @ ''line two'')"
  by (simp_all add: sample_env_def sample_read_text_def crlf_fs_def)

lemma binary_read:
  "read_text sample_env ''out/transcription.txt'' binary_fs = Inl UnicodeDecodeError"
  by (simp add: sample_env_def sample_read_text_def binary_fs_def)

lemma sample_exists:
  "path_exists sample_fs ''out/transcription.txt''" "path_exists sample_fs ''out/summary.txt''"
  "path_exists crlf_fs ''out/transcription.txt''" "path_exists crlf_fs ''out/summary.txt''"
  "path_exists binary_fs ''out/transcription.txt''"
  by (simp_all add: path_exists_def sample_fs_def crlf_fs_def binary_fs_def)

lemma makedirs_out_present:
  "makedirs sample_env ''out'' crlf_fs = (None, crlf_fs)"
  "makedirs sample_env ''out'' binary_fs = (None, binary_fs)"
  by (simp_all add: sample_env_def sample_makedirs_def path_isdir_def drop_slashes_def
      crlf_fs_def binary_fs_def sample_fs_def)

text \<open>
  Claim C1, amended. In every run of option 5 in which the creation of the output folder
  succeeds and the transcription file and the summary file exist, the run reads the
  transcription file and then the summary file as text. When both reads return, the run
  sends exactly one chat request, the flashcard request built from the string read from
  the summary file, as it was returned, and from the transcription, and no request of
  the summarizer, and it attempts no write other than the one of the flashcards. When
  one of the reads raises, the run ends with that error, again without a request of the
  summarizer and without a write.
\<close>

theorem interactive_menu_option5_reuses_summary:
  assumes "stdin w = cline # fline # rest"
    and "py_strip cline = ''5''"
    and "out = output_folder_of fline"
    and "makedirs ev out (fs w) = (None, fs1)"
    and "path_exists fs1 (path_join out ''transcription.txt'')"
    and "path_exists fs1 (path_join out ''summary.txt'')"
  shows "(\<forall>e. read_text ev (path_join out ''transcription.txt'') fs1 = Inl e \<longrightarrow>
            interactive_menu ev w =
              (Inl e,
               w\<lparr>stdin := rest, fs := fs1,
                 trace := trace w @ prologue out
                   @ [Read (path_join out ''transcription.txt'')]\<rparr>))
    \<and> (\<forall>t e. read_text ev (path_join out ''transcription.txt'') fs1 = Inr t
              \<and> read_text ev (path_join out ''summary.txt'') fs1 = Inl e \<longrightarrow>
            interactive_menu ev w =
              (Inl e,
               w\<lparr>stdin := rest, fs := fs1,
                 trace := trace w @ prologue out
                   @ [Read (path_join out ''transcription.txt''),
                      Read (path_join out ''summary.txt'')]\<rparr>))
    \<and> (\<forall>t s. read_text ev (path_join out ''transcription.txt'') fs1 = Inr t
              \<and> read_text ev (path_join out ''summary.txt'') fs1 = Inr s \<longrightarrow>
          (\<exists>tail.
             trace (snd (interactive_menu ev w))
               = trace w @ prologue out
                 @ [Read (path_join out ''transcription.txt''),
                    Read (path_join out ''summary.txt''),
                    Print (BLUE @ ''Generating flashcards with OpenAI API...'' @ RESET),
                    Chat (flashcards_request s t)]
                 @ tail
             \<and> chats tail = []
             \<and> (\<forall>(p, c) \<in> set (writes tail). p = path_join out ''flashcards.csv''))
          \<and> (fs (snd (interactive_menu ev w)) = fs1
              \<or> (\<exists>c. fs (snd (interactive_menu ev w))
                        = snd (write_text ev (path_join out ''flashcards.csv'') c fs1))))
    \<and> path_join out ''flashcards.csv'' \<noteq> path_join out ''summary.txt''
    \<and> (\<forall>s t x. flashcards_request s t \<noteq> summary_request x)"
proof -
  have m: "makedirs ev (output_folder_of fline) (fs w) = (None, fs1)"
    using assms(4) by (simp add: assms(3))
  show ?thesis
    unfolding interactive_menu_prologue [OF assms(1) m] assms(3) [symmetric] assms(2)
    using assms(5,6)
    apply (auto simp: dispatch_def and_then_read_file and_then_if_world and_then_generate_flashcards
        and_then_write_file generate_flashcards_apply Let_def artefacts_distinct requests_distinct
        split: sum.splits list.splits option.splits prod.splits)
     apply (metis snd_conv)+
    done
qed

theorem interactive_menu_option5_reuses_summary_witness:
  "read_text sample_env ''out/summary.txt'' sample_fs = Inr ''an old summary''
   \<and> chats (trace (snd (interactive_menu sample_env (sample_world [''5'', ''out'']))))
       = [flashcards_request ''an old summary'' ''we read chapter one'']
   \<and> ''out/summary.txt''
       \<notin> fst ` set (writes (trace (snd (interactive_menu sample_env (sample_world [''5'', ''out''])))))"
proof -
  let ?w = "sample_world [''5'', ''out'']"
  have h1: "stdin ?w = ''5'' # ''out'' # []"
    by (simp add: sample_world_def)
  have h2: "py_strip ''5'' = ''5''"
    by (simp add: sample_choices)
  have h3: "''out'' = output_folder_of ''out''"
    by (simp add: sample_folders)
  have h4: "makedirs sample_env ''out'' (fs ?w) = (None, sample_fs)"
    by (simp add: sample_world_def makedirs_out_sample)
  have h5: "path_exists sample_fs (path_join ''out'' ''transcription.txt'')"
    by (simp add: sample_joins sample_exists)
  have h6: "read_text sample_env (path_join ''out'' ''transcription.txt'') sample_fs
              = Inr ''we read chapter one''"
    by (simp add: sample_joins sample_reads)
  have h7: "path_exists sample_fs (path_join ''out'' ''summary.txt'')"
    by (simp add: sample_joins sample_exists)
  have rs: "read_text sample_env (path_join ''out'' ''summary.txt'') sample_fs
              = Inr ''an old summary''"
    by (simp add: sample_joins sample_reads)
  have tr: "trace ?w = []"
    by (simp add: sample_world_def)
  from interactive_menu_option5_reuses_summary [OF h1 h2 h3 h4 h5 h7] h6 rs
  obtain tail where
    t: "trace (snd (interactive_menu sample_env ?w))
        = trace ?w @ prologue ''out''
          @ [Read (path_join ''out'' ''transcription.txt''), Read (path_join ''out'' ''summary.txt''),
             Print (BLUE @ ''Generating flashcards with OpenAI API...'' @ RESET),
             Chat (flashcards_request ''an old summary'' ''we read chapter one'')]
          @ tail"
    and c: "chats tail = []"
    and wr: "\<forall>(p, c) \<in> set (writes tail). p = path_join ''out'' ''flashcards.csv''"
    by blast
  have "chats (trace (snd (interactive_menu sample_env ?w)))
          = [flashcards_request ''an old summary'' ''we read chapter one'']"
    unfolding t by (simp add: tr c)
  moreover have "''out/summary.txt''
                   \<notin> fst ` set (writes (trace (snd (interactive_menu sample_env ?w))))"
    unfolding t using wr by (auto simp: tr sample_joins)
  ultimately show ?thesis
    using sample_reads(2) by simp
qed

text \<open>
  Claim C1 as stated fails: the summary file holds \<open>line one\<close>, a carriage return, a
  line feed and \<open>line two\<close>; the flashcard request is built from \<open>line one\<close>, a line
  feed and \<open>line two\<close>, which is not the content of the file.
\<close>

theorem interactive_menu_option5_reuses_summary_counterexample:
  "files (fs (crlf_world [''5'', ''out''])) ''out/summary.txt''
     = Some (''line one'' @ [CHR 0x0D, CHR 0x0A] @ ''line two'')
   \<and> chats (trace (snd (interactive_menu sample_env (crlf_world [''5'', ''out'']))))
       = [flashcards_request (''line one'' @ [CHR 0x0A] @ ''line two'')
            (''we read'' @ [CHR 0x0A] @ ''chapter one'')]
   \<and> ''line one'' @ [CHR 0x0A] @ ''line two'' \<noteq> ''line one'' @ [CHR 0x0D, CHR 0x0A] @ ''line two''"
proof -
  let ?w = "crlf_world [''5'', ''out'']"
  have h1: "stdin ?w = ''5'' # ''out'' # []"
    by (simp add: crlf_world_def)
  have m: "makedirs sample_env (output_folder_of ''out'') (fs ?w) = (None, crlf_fs)"
    by (simp add: sample_folders crlf_world_def makedirs_out_present)
  have "chats (trace (snd (interactive_menu sample_env ?w)))
          = [flashcards_request (''line one'' @ [CHR 0x0A] @ ''line two'')
               (''we read'' @ [CHR 0x0A] @ ''chapter one'')]"
    unfolding interactive_menu_prologue [OF h1 m]
    by (simp add: sample_folders sample_choices sample_joins dispatch_def sample_exists
        and_then_read_file and_then_if_world crlf_reads read_file_def
        and_then_generate_flashcards generate_flashcards_apply Let_def and_then_write_file
        crlf_world_def
        split: sum.splits list.splits option.splits prod.splits)
  moreover have "files (fs ?w) ''out/summary.txt''
                   = Some (''line one'' @ [CHR 0x0D, CHR 0x0A] @ ''line two'')"
    by (simp add: crlf_world_def crlf_fs_def)
  ultimately show ?thesis
    by simp
qed

lemma sample_write_summary:
  "files (snd (write_text sample_env ''out/summary.txt'' ''a reply'' sample_fs)) ''out/summary.txt''
     = Some ''a reply''"
proof -
  have d: "dirname ''out/summary.txt'' = ''out''"
    by (simp add: dirname_def)
  have e: "utf8_encode ''a reply'' = ''a reply''"
    by (simp add: utf8_encode_def)
  have n: "\<not> path_isdir sample_fs ''out/summary.txt''" "files sample_fs ''out'' = None"
    by (simp_all add: sample_fs_def path_isdir_def drop_slashes_def)
  show ?thesis
    using n by (simp add: sample_env_def sample_write_text_def d e sample_dirs)
qed

text \<open>
  Claim C7, amended. In every run of option 4 or option 6 in which the creation of the
  output folder succeeds and the transcription file exists, the run reads the
  transcription file as text without looking for a summary file. When that read raises,
  the run ends with the error, the summarizer is not called and nothing is written. When
  it returns a string, the run calls the summarizer on that string; and when the
  completion has a first choice with text, the next call is the write of the stripped
  text to the summary file, and the file system the run leaves is the one that write
  left (option 4) or that one possibly followed by the write of the flashcards (option 6).
\<close>

theorem interactive_menu_options_4_6_regenerate:
  assumes "stdin w = cline # fline # rest"
    and "py_strip cline = ''4'' \<or> py_strip cline = ''6''"
    and "out = output_folder_of fline"
    and "makedirs ev out (fs w) = (None, fs1)"
    and "path_exists fs1 (path_join out ''transcription.txt'')"
  shows "(\<forall>e. read_text ev (path_join out ''transcription.txt'') fs1 = Inl e \<longrightarrow>
            interactive_menu ev w =
              (Inl e,
               w\<lparr>stdin := rest, fs := fs1,
                 trace := trace w @ prologue out @ [Read (path_join out ''transcription.txt'')]\<rparr>))
    \<and> (\<forall>t. read_text ev (path_join out ''transcription.txt'') fs1 = Inr t \<longrightarrow>
          (\<exists>tail.
             trace (snd (interactive_menu ev w))
               = trace w @ prologue out
                 @ [Read (path_join out ''transcription.txt''),
                    Print (BLUE @ ''Generating summary with OpenAI API...'' @ RESET),
                    Chat (summary_request t)]
                 @ tail)
          \<and> (\<forall>c cs. chat_create ev (summary_request t) = Inr (Some c # cs) \<longrightarrow>
                (\<exists>tail.
                   trace (snd (interactive_menu ev w))
                     = trace w @ prologue out
                       @ [Read (path_join out ''transcription.txt''),
                          Print (BLUE @ ''Generating summary with OpenAI API...'' @ RESET),
                          Chat (summary_request t),
                          Print (GREEN @ ''Summary generated.'' @ RESET),
                          Write (path_join out ''summary.txt'') (py_strip c)]
                       @ tail)
                \<and> (py_strip cline = ''4'' \<longrightarrow>
                       fs (snd (interactive_menu ev w))
                         = snd (write_text ev (path_join out ''summary.txt'') (py_strip c) fs1))
                \<and> (py_strip cline = ''6'' \<longrightarrow>
                       fs (snd (interactive_menu ev w))
                         = snd (write_text ev (path_join out ''summary.txt'') (py_strip c) fs1)
                       \<or> (\<exists>c'. fs (snd (interactive_menu ev w))
                                  = snd (write_text ev (path_join out ''flashcards.csv'') c'
                                           (snd (write_text ev (path_join out ''summary.txt'')
                                                   (py_strip c) fs1)))))))"
proof -
  have m: "makedirs ev (output_folder_of fline) (fs w) = (None, fs1)"
    using assms(4) by (simp add: assms(3))
  from assms(2) show ?thesis
  proof
    assume c4: "py_strip cline = ''4''"
    show ?thesis
      unfolding interactive_menu_prologue [OF assms(1) m] assms(3) [symmetric] c4
      using assms(5)
      by (auto simp: dispatch_def and_then_read_file and_then_generate_summary
          and_then_write_file generate_summary_apply Let_def
          split: sum.splits list.splits option.splits prod.splits)
  next
    assume c6: "py_strip cline = ''6''"
    show ?thesis
      unfolding interactive_menu_prologue [OF assms(1) m] assms(3) [symmetric] c6
      using assms(5)
      apply (auto simp: dispatch_def and_then_read_file and_then_generate_summary
          and_then_generate_flashcards and_then_write_file generate_summary_apply
          generate_flashcards_apply Let_def
          split: sum.splits list.splits option.splits prod.splits)
      apply (metis snd_conv)+
      done
  qed
qed


theorem interactive_menu_options_4_6_regenerate_witness:
  "read_text sample_env ''out/transcription.txt'' sample_fs = Inr ''we read chapter one''
   \<and> chat_create sample_env (summary_request ''we read chapter one'')
       = Inr [Some '' a reply '', Some ''another'']
   \<and> files sample_fs ''out/summary.txt'' = Some ''an old summary''
   \<and> files (fs (snd (interactive_menu sample_env (sample_world [''4'', ''out''])))) ''out/summary.txt''
       = Some ''a reply''"
proof -
  let ?w = "sample_world [''4'', ''out'']"
  have h1: "stdin ?w = ''4'' # ''out'' # []"
    by (simp add: sample_world_def)
  have h2: "py_strip ''4'' = ''4'' \<or> py_strip ''4'' = ''6''"
    by (simp add: sample_choices)
  have h3: "''out'' = output_folder_of ''out''"
    by (simp add: sample_folders)
  have h4: "makedirs sample_env ''out'' (fs ?w) = (None, sample_fs)"
    by (simp add: sample_world_def makedirs_out_sample)
  have h5: "path_exists sample_fs (path_join ''out'' ''transcription.txt'')"
    by (simp add: sample_joins sample_exists)
  have rt: "read_text sample_env (path_join ''out'' ''transcription.txt'') sample_fs
              = Inr ''we read chapter one''"
    by (simp add: sample_joins sample_reads)
  have c: "chat_create sample_env (summary_request ''we read chapter one'')
             = Inr (Some '' a reply '' # [Some ''another''])"
    by (simp add: sample_env_def)
  have s: "py_strip '' a reply '' = ''a reply''"
    by (simp add: py_strip_def py_isspace_def)
  have c4: "py_strip ''4'' = ''4''"
    by (simp add: sample_choices)
  have "fs (snd (interactive_menu sample_env ?w))
          = snd (write_text sample_env (path_join ''out'' ''summary.txt'') (py_strip '' a reply '')
                   sample_fs)"
    using interactive_menu_options_4_6_regenerate [OF h1 h2 h3 h4 h5] rt c c4 by blast
  then have "files (fs (snd (interactive_menu sample_env ?w))) ''out/summary.txt'' = Some ''a reply''"
    by (simp add: s sample_joins sample_write_summary)
  moreover have "files sample_fs ''out/summary.txt'' = Some ''an old summary''"
    by (simp add: sample_fs_def)
  ultimately show ?thesis
    using sample_reads(1) c by simp
qed

text \<open>
  Claim C7 as stated fails. With a transcription file that exists and is not UTF-8,
  option 4 ends with \<open>UnicodeDecodeError\<close>: the summarizer is not called and no summary
  is written. With a transcription file holding \<open>we read\<close>, a carriage return and
  \<open>chapter one\<close>, the summarizer is called on \<open>we read\<close>, a line feed and
  \<open>chapter one\<close>, which is not the content of the file.
\<close>

theorem interactive_menu_options_4_6_regenerate_counterexample:
  "path_exists (fs (binary_world [''4'', ''out''])) ''out/transcription.txt''
   \<and> interactive_menu sample_env (binary_world [''4'', ''out''])
       = (Inl UnicodeDecodeError,
          (binary_world [''4'', ''out''])
            \<lparr>stdin := [], trace := prologue ''out'' @ [Read ''out/transcription.txt'']\<rparr>)
   \<and> files (fs (crlf_world [''4'', ''out''])) ''out/transcription.txt''
       = Some (''we read'' @ [CHR 0x0D] @ ''chapter one'')
   \<and> chats (trace (snd (interactive_menu sample_env (crlf_world [''4'', ''out'']))))
       = [summary_request (''we read'' @ [CHR 0x0A] @ ''chapter one'')]
   \<and> ''we read'' @ [CHR 0x0A] @ ''chapter one'' \<noteq> ''we read'' @ [CHR 0x0D] @ ''chapter one''"
proof -
  let ?b = "binary_world [''4'', ''out'']"
  let ?c = "crlf_world [''4'', ''out'']"
  have b1: "stdin ?b = ''4'' # ''out'' # []"
    by (simp add: binary_world_def)
  have bm: "makedirs sample_env (output_folder_of ''out'') (fs ?b) = (None, binary_fs)"
    by (simp add: sample_folders binary_world_def makedirs_out_present)
  have be: "path_exists (fs ?b) ''out/transcription.txt''"
    by (simp add: binary_world_def sample_exists)
  have br: "interactive_menu sample_env ?b
              = (Inl UnicodeDecodeError,
                 ?b\<lparr>stdin := [], trace := prologue ''out'' @ [Read ''out/transcription.txt'']\<rparr>)"
    unfolding interactive_menu_prologue [OF b1 bm]
    by (simp add: sample_folders sample_choices sample_joins dispatch_def sample_exists
        and_then_read_file binary_read binary_world_def)
  have c1: "stdin ?c = ''4'' # ''out'' # []"
    by (simp add: crlf_world_def)
  have cm: "makedirs sample_env (output_folder_of ''out'') (fs ?c) = (None, crlf_fs)"
    by (simp add: sample_folders crlf_world_def makedirs_out_present)
  have cf: "files (fs ?c) ''out/transcription.txt'' = Some (''we read'' @ [CHR 0x0D] @ ''chapter one'')"
    by (simp add: crlf_world_def crlf_fs_def)
  have cr: "chats (trace (snd (interactive_menu sample_env ?c)))
              = [summary_request (''we read'' @ [CHR 0x0A] @ ''chapter one'')]"
    unfolding interactive_menu_prologue [OF c1 cm]
    by (simp add: sample_folders sample_choices sample_joins dispatch_def sample_exists
        and_then_read_file crlf_reads and_then_generate_summary generate_summary_apply Let_def
        and_then_write_file crlf_world_def
        split: sum.splits list.splits option.splits prod.splits)
  from be br cf cr show ?thesis
    by simp
qed

end
